theory Spec2Isabelle
  imports Main "HOL-Library.Word" "HOL-Library.Log_Nat" "HOL-Library.Sublist"
begin

section \<open>The render target of SFML/Graphics/RenderTarget.cpp\<close>

text \<open>
  The file embeds the member functions of \<^verbatim>\<open>sf::RenderTarget\<close> as functions on a record
  of its data members. Everything the class calls on its collaborators (the GL device,
  \<^verbatim>\<open>Shader\<close>, \<^verbatim>\<open>Texture\<close>, \<^verbatim>\<open>VertexBuffer\<close>, \<^verbatim>\<open>Light\<close>) is appended, in order, to a
  list of calls kept beside the members; what the collaborators answer is read from a
  record of parameters.
\<close>

subsection \<open>Single-precision arithmetic\<close>

text \<open>
  A finite \<^verbatim>\<open>float\<close> is the rational it denotes. An operation computes exactly and
  rounds to the nearest binary32 value, ties to even (24 significant bits, gradual
  underflow below \<open>2\<^sup>-\<^sup>1\<^sup>2\<^sup>6\<close>); each operation rounds on its own, as a compiler does that
  evaluates \<^verbatim>\<open>float\<close> expressions in single precision without contraction. Infinities
  and NaN are not values of the model: the only consumer of a product or sum here is the
  conversion to \<^verbatim>\<open>int\<close>, which is undefined for them as it is for every value beyond the
  range of \<^verbatim>\<open>int\<close>, and is \<open>None\<close> in both cases.
\<close>

definition pow2 :: "int \<Rightarrow> rat" where
  "pow2 e = (if 0 \<le> e then 2 ^ nat e else 1 / 2 ^ nat (- e))"

definition exponent :: "rat \<Rightarrow> int" where
  \<comment> \<open>for \<open>0 < a\<close>, the \<open>e\<close> with \<open>2\<^sup>e \<le> a < 2\<^sup>e\<^sup>+\<^sup>1\<close>\<close>
  "exponent a = (if 1 \<le> a then bitlen \<lfloor>a\<rfloor> - 1 else - int (ceillog2 (nat \<lceil>1 / a\<rceil>)))"

definition round_even :: "rat \<Rightarrow> int" where
  "round_even q = (let r = \<lfloor>q\<rfloor>; d = q - of_int r in
     if d < 1 / 2 then r else if 1 / 2 < d then r + 1 else if even r then r else r + 1)"

definition float_round :: "rat \<Rightarrow> rat" where
  "float_round v = (if v = 0 then 0 else
     let e = max (exponent \<bar>v\<bar>) (- 126); u = pow2 (e - 23)
     in of_int (round_even (v / u)) * u)"

definition float_add :: "rat \<Rightarrow> rat \<Rightarrow> rat" where
  "float_add a b = float_round (a + b)"

definition float_mul :: "rat \<Rightarrow> rat \<Rightarrow> rat" where
  "float_mul a b = float_round (a * b)"

definition float_div :: "rat \<Rightarrow> rat \<Rightarrow> rat" where
  \<comment> \<open>for a divisor other than zero\<close>
  "float_div a b = float_round (a / b)"

definition static_cast_float :: "32 word \<Rightarrow> rat" where
  \<comment> \<open>\<^verbatim>\<open>static_cast<float>\<close> of an \<^verbatim>\<open>unsigned int\<close>\<close>
  "static_cast_float n = float_round (of_nat (unat n))"

definition static_cast_int :: "rat \<Rightarrow> int option" where
  \<comment> \<open>\<^verbatim>\<open>static_cast<int>\<close> of a \<^verbatim>\<open>float\<close>: truncation towards zero, undefined when the
      truncated value is not an \<^verbatim>\<open>int\<close>\<close>
  "static_cast_int v = (let t = (if 0 \<le> v then \<lfloor>v\<rfloor> else \<lceil>v\<rceil>)
     in if - (2 ^ 31) \<le> t \<and> t < 2 ^ 31 then Some t else None)"

subsection \<open>Values\<close>

type_synonym Uint64 = "64 word"

record 'a Vector2 =
  vec_x :: 'a
  vec_y :: 'a

type_synonym Vector2u = "32 word Vector2"

record 'a Rect =
  rect_left :: 'a
  rect_top :: 'a
  rect_width :: 'a
  rect_height :: 'a

type_synonym IntRect = "int Rect"
type_synonym FloatRect = "rat Rect"

text \<open>
  \<^verbatim>\<open>View\<close> is declared outside this file. Of a view the target reads the viewport
  rectangle; its matrices and position stay symbolic (see \<open>Transform\<close> below), and
  \<open>area\<close> is the rectangle last given to \<^verbatim>\<open>reset\<close>.
\<close>

record View =
  viewport :: FloatRect
  area :: FloatRect

text \<open>
  A texture and a vertex buffer are the members the target reads (it is a friend of both
  classes), with the address of the object: the target is handed pointers and references.
\<close>

record Texture =
  texture_address :: nat
  texture_cacheId :: Uint64
  m_size :: Vector2u
  m_actualSize :: Vector2u
  m_pixelsFlipped :: bool

datatype PrimitiveType =
  Points | Lines | LinesStrip | Triangles | TrianglesStrip | TrianglesFan | Quads

record VertexBuffer =
  buffer_address :: nat
  buffer_cacheId :: Uint64
  getVertexCount :: nat
  getPrimitiveType :: PrimitiveType

text \<open>
  \<^verbatim>\<open>Transform\<close> and the vectors are the matrix library's. The target only passes them
  on, so a transform is a term: the caller's matrix, or what the source builds from
  others (\<^verbatim>\<open>a * b\<close>, the getters of the current view, the texture matrix made from a
  texture's sizes and flip flag, the inverse transpose of the upper block of a model
  matrix).
\<close>

datatype Transform =
  Identity
  | Matrix "rat list"
  | Product Transform Transform
  | View_getTransform "View option"
  | View_getViewTransform "View option"
  | TextureMatrix Texture
  | NormalMatrix Transform

datatype Vector3f =
  Vector3f rat rat rat
  | TransformPoint Transform Vector3f
  | View_getPosition "View option"

record Color =
  red :: "8 word"
  green :: "8 word"
  blue :: "8 word"
  alpha :: "8 word"

record Vertex =
  position :: Vector3f
  color :: Color
  texCoords :: "rat Vector2"
  normal :: Vector3f

datatype BlendMode = BlendAlpha | BlendAdd | BlendMultiply | BlendNone

text \<open>A shader is known to the target by its address only; \<open>None\<close> is the null pointer.\<close>

type_synonym Shader_ptr = "nat option"

record RenderStates =
  transform :: Transform
  blendMode :: BlendMode
  texture :: "Texture option"
  shader :: Shader_ptr
  states_useVertexCache :: bool

subsection \<open>The device and the collaborators\<close>

datatype GLenum =
  GL_LIGHTING | GL_DEPTH_TEST | GL_ALPHA_TEST | GL_CULL_FACE | GL_BLEND
  | GL_TEXTURE_2D | GL_COLOR_MATERIAL | GL_NORMALIZE
  | GL_MODELVIEW | GL_PROJECTION
  | GL_VERTEX_ARRAY | GL_COLOR_ARRAY | GL_TEXTURE_COORD_ARRAY | GL_NORMAL_ARRAY
  | GL_FRONT_AND_BACK | GL_FILL
  | GL_SRC_ALPHA | GL_ONE_MINUS_SRC_ALPHA | GL_ONE | GL_DST_COLOR | GL_ZERO
  | GL_FLOAT | GL_UNSIGNED_BYTE
  | GL_POINTS | GL_LINES | GL_LINE_STRIP | GL_TRIANGLES | GL_TRIANGLE_STRIP
  | GL_TRIANGLE_FAN | GL_QUADS
  | GL_TEXTURE | GL_GEQUAL | GL_COLOR_BUFFER_BIT | GL_DEPTH_BUFFER_BIT
  | GL_CLIENT_ALL_ATTRIB_BITS | GL_ALL_ATTRIB_BITS

text \<open>
  A pointer given to the device: a byte offset into the caller's array, into the
  target's own vertex cache, or from the null pointer (an offset into the bound buffer).
\<close>

datatype pointer =
  Into_vertices "Vertex list" nat
  | Into_vertexCache nat
  | Null_plus nat

datatype CoordinateType = Normalized | Pixels

datatype parameter =
  Int_parameter int
  | Transform_parameter Transform
  | Texture_parameter Texture
  | Vector3f_parameter Vector3f

text \<open>What is written to the error stream: pieces of text and numbers.\<close>

datatype err_output = Text string | Number nat

text \<open>
  One constructor for each function the target calls on the device or on a collaborator,
  with the arguments of the call. The four arguments of \<open>glViewport\<close> are \<open>None\<close> when the
  source computes them from a conversion that is undefined, and the argument of \<open>glClear\<close>
  lists the bits of the mask. \<^verbatim>\<open>glCheck(f)\<close> is the call \<open>f\<close>: the error check that the
  macro adds in a debug build is not part of the model.
\<close>

datatype call =
  glDisable GLenum
  | glEnable GLenum
  | glMatrixMode GLenum
  | glEnableClientState GLenum
  | glPolygonMode GLenum GLenum
  | glViewport "(int \<times> int \<times> int \<times> int) option"
  | glLoadMatrixf Transform
  | glBlendFunc GLenum GLenum
  | glBlendFuncSeparateEXT GLenum GLenum GLenum GLenum
  | glVertexPointer nat GLenum nat pointer
  | glColorPointer nat GLenum nat pointer
  | glTexCoordPointer nat GLenum nat pointer
  | glNormalPointer GLenum nat pointer
  | glEnableVertexAttribArrayARB int
  | glVertexAttribPointerARB int nat GLenum bool nat pointer
  | glDisableVertexAttribArrayARB int
  | glDrawArrays GLenum nat nat
  | ensureGlewInit
  | Texture_bind "Texture option" CoordinateType
  | Shader_bind Shader_ptr
  | Shader_setParameter Shader_ptr string parameter
  | Shader_getVertexAttributeLocation Shader_ptr string
  | Shader_loadFromMemory nat
  | Shader_delete nat
  | VertexBuffer_bind "VertexBuffer option"
  | Light_addToShader nat Shader_ptr
  | glClearColor rat rat rat rat
  | glClear "GLenum list"
  | glDepthFunc GLenum
  | glClearDepth rat
  | glDepthRangef rat rat
  | glGetError
  | glPushClientAttrib GLenum
  | glPushAttrib GLenum
  | glPushMatrix
  | glPopMatrix
  | glPopClientAttrib
  | glPopAttrib
  | err "err_output list"

subsection \<open>The target\<close>

record StatesCache =
  glStatesSet :: bool
  viewChanged :: bool
  lastBlendMode :: BlendMode
  lastTextureId :: Uint64
  lastVertexBufferId :: Uint64
  useVertexCache :: bool
  vertexCache :: "Vertex list"

text \<open>
  The data members of the class, then the two things its member functions change outside
  it: \<open>calls\<close>, the calls made so far, oldest first, and \<open>warnMissing\<close>, the
  warn-on-missing-parameter flag of the shader at each address.
\<close>

record RenderTarget =
  m_defaultView :: View
  m_view :: "View option"
  m_cache :: StatesCache
  m_depthTest :: bool
  m_clearDepth :: bool
  m_defaultShader :: Shader_ptr
  m_currentNonLegacyShader :: Shader_ptr
  m_lastNonLegacyShader :: Shader_ptr
  calls :: "call list"
  warnMissing :: "nat \<Rightarrow> bool"

text \<open>
  What the surroundings answer during one operation of the target. \<open>activate\<close> and
  \<open>getSize\<close> are the pure virtual functions of the class; \<open>activate\<close> answers the same
  to the operation and to the \<open>resetGLStates\<close> it calls. \<open>VertexCacheSize\<close> is the constant
  \<^verbatim>\<open>StatesCache::VertexCacheSize\<close> of the header and \<open>SFML_LEGACY_GL\<close> says whether the
  build defines that macro. \<open>versionNumber\<close> is the \<^verbatim>\<open>double\<close> that \<^verbatim>\<open>operator>>\<close>
  extracts from \<^verbatim>\<open>Shader::getSupportedVersion()\<close>, \<open>new_Shader\<close> the address that
  \<^verbatim>\<open>new Shader\<close> returns and \<open>loadFromMemory\<close> whether the default program pair compiles.
  \<open>Light_getEnabledLights\<close> lists the addresses of the enabled lights in the order in
  which the set is iterated, and \<open>Shader_getVertexAttributeLocation_result\<close> is what the
  shader at an address answers for an attribute name. \<open>SFML_DEBUG\<close> says whether the
  build defines that macro, and \<open>glGetError_result\<close> is the error code that the device
  reports when asked (0 is \<^verbatim>\<open>GL_NO_ERROR\<close>).
\<close>

record Env =
  activate :: bool
  getSize :: Vector2u
  VertexCacheSize :: nat
  SFML_LEGACY_GL :: bool
  GLEW_EXT_blend_func_separate :: bool
  Shader_isAvailable :: bool
  Shader_getVertexAttributeLocation_result :: "Shader_ptr \<Rightarrow> string \<Rightarrow> int"
  VertexBuffer_isAvailable :: bool
  Light_isLightingEnabled :: bool
  Light_getEnabledLights :: "nat list"
  Light_hasShaderLighting :: bool
  versionNumber :: rat
  new_Shader :: nat
  loadFromMemory :: bool
  SFML_DEBUG :: bool
  glGetError_result :: nat

definition emit :: "call list \<Rightarrow> RenderTarget \<Rightarrow> RenderTarget" where
  "emit cs rt = rt\<lparr>calls := calls rt @ cs\<rparr>"

subsection \<open>getViewport\<close>

definition getViewport :: "Env \<Rightarrow> View \<Rightarrow> IntRect option" where
  "getViewport env view =
    (let width = static_cast_float (vec_x (getSize env));
         height = static_cast_float (vec_y (getSize env));
         viewport = View.viewport view
     in case (static_cast_int (float_add (1 / 2) (float_mul width (rect_left viewport))),
              static_cast_int (float_add (1 / 2) (float_mul height (rect_top viewport))),
              static_cast_int (float_mul width (rect_width viewport)),
              static_cast_int (float_mul height (rect_height viewport))) of
          (Some l, Some t, Some w, Some h) \<Rightarrow>
            Some \<lparr>rect_left = l, rect_top = t, rect_width = w, rect_height = h\<rparr>
        | _ \<Rightarrow> None)"

subsection \<open>The state appliers\<close>

definition current_shader :: "RenderTarget \<Rightarrow> Shader_ptr" where
  \<comment> \<open>the local \<^verbatim>\<open>shader\<close> of the three appliers that set uniforms\<close>
  "current_shader rt =
    (if m_currentNonLegacyShader rt \<noteq> None then m_currentNonLegacyShader rt
     else m_defaultShader rt)"

definition applyCurrentView :: "Env \<Rightarrow> RenderTarget \<Rightarrow> RenderTarget" where
  "applyCurrentView env rt =
    (let viewport = (case m_view rt of None \<Rightarrow> None | Some v \<Rightarrow> getViewport env v);
         rt = emit [glViewport (case viewport of None \<Rightarrow> None | Some vp \<Rightarrow>
                Some (rect_left vp,
                      sint (vec_y (getSize env) - word_of_int (rect_top vp + rect_height vp)),
                      rect_width vp, rect_height vp))] rt;
         rt = (if m_defaultShader rt \<noteq> None
               then emit [Shader_setParameter (current_shader rt) ''sf_ProjectionMatrix''
                            (Transform_parameter (View_getTransform (m_view rt)))] rt
               else emit [glMatrixMode GL_PROJECTION,
                          glLoadMatrixf (View_getTransform (m_view rt)),
                          glMatrixMode GL_MODELVIEW] rt)
     in rt\<lparr>m_cache := (m_cache rt)\<lparr>viewChanged := False\<rparr>\<rparr>)"

definition applyBlendMode :: "Env \<Rightarrow> BlendMode \<Rightarrow> RenderTarget \<Rightarrow> RenderTarget" where
  "applyBlendMode env mode rt =
    (let rt = (case mode of
          BlendAlpha \<Rightarrow>
            if GLEW_EXT_blend_func_separate env
            then emit [glBlendFuncSeparateEXT GL_SRC_ALPHA GL_ONE_MINUS_SRC_ALPHA
                         GL_ONE GL_ONE_MINUS_SRC_ALPHA] rt
            else emit [glBlendFunc GL_SRC_ALPHA GL_ONE_MINUS_SRC_ALPHA] rt
        | BlendAdd \<Rightarrow>
            if GLEW_EXT_blend_func_separate env
            then emit [glBlendFuncSeparateEXT GL_SRC_ALPHA GL_ONE GL_ONE GL_ONE] rt
            else emit [glBlendFunc GL_SRC_ALPHA GL_ONE] rt
        | BlendMultiply \<Rightarrow> emit [glBlendFunc GL_DST_COLOR GL_ZERO] rt
        | BlendNone \<Rightarrow> emit [glBlendFunc GL_ONE GL_ZERO] rt)
     in rt\<lparr>m_cache := (m_cache rt)\<lparr>lastBlendMode := mode\<rparr>\<rparr>)"

definition applyTransform :: "Env \<Rightarrow> Transform \<Rightarrow> RenderTarget \<Rightarrow> RenderTarget" where
  "applyTransform env tr rt =
    (if m_defaultShader rt \<noteq> None
     then let sh = current_shader rt;
              rt = emit [Shader_setParameter sh ''sf_ViewMatrix''
                           (Transform_parameter (View_getViewTransform (m_view rt))),
                         Shader_setParameter sh ''sf_ModelMatrix''
                           (Transform_parameter tr)] rt
          in if Light_isLightingEnabled env
             then emit [Shader_setParameter sh ''sf_NormalMatrix''
                          (Transform_parameter (NormalMatrix tr))] rt
             else rt
     else emit [glLoadMatrixf (Product (View_getViewTransform (m_view rt)) tr)] rt)"

definition applyTexture :: "Texture option \<Rightarrow> RenderTarget \<Rightarrow> RenderTarget" where
  "applyTexture tex rt =
    (let rt = (if m_defaultShader rt \<noteq> None
               then let sh = current_shader rt
                    in case tex of
                         Some t \<Rightarrow>
                           emit [Shader_setParameter sh ''sf_TextureMatrix''
                                   (Transform_parameter (TextureMatrix t)),
                                 Shader_setParameter sh ''sf_Texture0'' (Texture_parameter t),
                                 Shader_setParameter sh ''sf_TextureEnabled''
                                   (Int_parameter 1)] rt
                       | None \<Rightarrow>
                           emit [Shader_setParameter sh ''sf_TextureEnabled''
                                   (Int_parameter 0)] rt
               else emit [Texture_bind tex Pixels] rt)
     in rt\<lparr>m_cache := (m_cache rt)\<lparr>lastTextureId :=
            (case tex of Some t \<Rightarrow> texture_cacheId t | None \<Rightarrow> 0)\<rparr>\<rparr>)"

definition applyShader :: "Shader_ptr \<Rightarrow> RenderTarget \<Rightarrow> RenderTarget" where
  "applyShader sh rt = emit [Shader_bind sh] rt"

definition applyVertexBuffer :: "VertexBuffer option \<Rightarrow> RenderTarget \<Rightarrow> RenderTarget" where
  "applyVertexBuffer buffer rt =
    (let rt = emit [VertexBuffer_bind buffer] rt
     in rt\<lparr>m_cache := (m_cache rt)\<lparr>lastVertexBufferId :=
            (case buffer of Some vb \<Rightarrow> buffer_cacheId vb | None \<Rightarrow> 0)\<rparr>\<rparr>)"

subsection \<open>Views and the persistent GL states\<close>

definition setView :: "View \<Rightarrow> RenderTarget \<Rightarrow> RenderTarget" where
  \<comment> \<open>Modelled from the spec: \<^verbatim>\<open>RenderTarget::setView\<close> is called by \<open>resetGLStates\<close> and
      not defined in this file; the spec says that replacing the current view marks
      \<open>viewChanged = true\<close>.\<close>
  "setView view rt = rt\<lparr>m_view := Some view, m_cache := (m_cache rt)\<lparr>viewChanged := True\<rparr>\<rparr>"

definition View_reset :: "FloatRect \<Rightarrow> View \<Rightarrow> View" where
  \<comment> \<open>Modelled from the spec: \<^verbatim>\<open>View::reset\<close> belongs to the view class; the spec says
      that initialization resets the default view to the full target surface.\<close>
  "View_reset rectangle view = view\<lparr>area := rectangle\<rparr>"

definition resetGLStates :: "Env \<Rightarrow> RenderTarget \<Rightarrow> RenderTarget" where
  "resetGLStates env rt0 =
    (if activate env then
       let rt1 = emit ([ensureGlewInit, glDisable GL_LIGHTING]
                   @ (if \<not> m_depthTest rt0 then [glDisable GL_DEPTH_TEST] else [])
                   @ [glDisable GL_ALPHA_TEST, glEnable GL_CULL_FACE, glEnable GL_BLEND]
                   @ (if m_defaultShader rt0 = None
                      then [glEnable GL_TEXTURE_2D, glEnable GL_COLOR_MATERIAL,
                            glEnable GL_NORMALIZE, glMatrixMode GL_MODELVIEW,
                            glEnableClientState GL_VERTEX_ARRAY,
                            glEnableClientState GL_COLOR_ARRAY,
                            glEnableClientState GL_TEXTURE_COORD_ARRAY,
                            glEnableClientState GL_NORMAL_ARRAY]
                      else [])
                   @ [glPolygonMode GL_FRONT_AND_BACK GL_FILL]) rt0;
           rt2 = rt1\<lparr>m_cache := (m_cache rt1)\<lparr>glStatesSet := True\<rparr>\<rparr>;
           rt3 = applyBlendMode env BlendAlpha rt2;
           rt4 = applyTransform env Identity rt3;
           rt5 = applyTexture None rt4;
           rt6 = (if Shader_isAvailable env
                  then (if m_defaultShader rt5 = None then applyShader None rt5
                        else applyShader (m_defaultShader rt5) rt5)
                  else rt5);
           rt7 = (if VertexBuffer_isAvailable env then applyVertexBuffer None rt6 else rt6);
           rt8 = rt7\<lparr>m_cache := (m_cache rt7)\<lparr>useVertexCache := False\<rparr>\<rparr>
       in setView (m_defaultView rt8) rt8
     else rt0)"

subsection \<open>clear, enableDepthTest, pushGLStates and popGLStates\<close>

definition clear :: "Env \<Rightarrow> Color \<Rightarrow> RenderTarget \<Rightarrow> RenderTarget" where
  "clear env c rt =
    (if activate env
     then emit [glClearColor (float_div (of_nat (unat (red c))) 255)
                  (float_div (of_nat (unat (green c))) 255)
                  (float_div (of_nat (unat (blue c))) 255)
                  (float_div (of_nat (unat (alpha c))) 255),
                glClear ([GL_COLOR_BUFFER_BIT]
                  @ (if m_clearDepth rt then [GL_DEPTH_BUFFER_BIT] else []))] rt
     else rt)"

definition enableDepthTest :: "bool \<Rightarrow> RenderTarget \<Rightarrow> RenderTarget" where
  "enableDepthTest enable rt0 =
    (let rt1 = rt0\<lparr>m_depthTest := enable\<rparr>
     in if enable
        then emit [glEnable GL_DEPTH_TEST, glDepthFunc GL_GEQUAL, glClearDepth 0,
                   glDepthRangef 1 0] rt1
        else emit [glDisable GL_DEPTH_TEST] rt1)"

definition pushGLStates :: "Env \<Rightarrow> RenderTarget \<Rightarrow> RenderTarget" where
  "pushGLStates env rt0 =
    (let rt1 =
       (if activate env
        then emit ((if SFML_DEBUG env
                    then [glGetError]
                      @ (if glGetError_result env \<noteq> 0
                         then [err [Text ''OpenGL error ('', Number (glGetError_result env),
                                    Text '') detected in user code, '',
                                    Text ''you should check for errors with glGetError()'']]
                         else [])
                    else [])
                   @ [glPushClientAttrib GL_CLIENT_ALL_ATTRIB_BITS,
                      glPushAttrib GL_ALL_ATTRIB_BITS,
                      glMatrixMode GL_MODELVIEW, glPushMatrix,
                      glMatrixMode GL_PROJECTION, glPushMatrix,
                      glMatrixMode GL_TEXTURE, glPushMatrix]) rt0
        else rt0)
     in resetGLStates env rt1)"

definition popGLStates :: "Env \<Rightarrow> RenderTarget \<Rightarrow> RenderTarget" where
  "popGLStates env rt0 =
    (if activate env
     then let rt1 = (if m_defaultShader rt0 \<noteq> None then applyShader None rt0 else rt0)
          in emit [glMatrixMode GL_PROJECTION, glPopMatrix,
                   glMatrixMode GL_MODELVIEW, glPopMatrix,
                   glMatrixMode GL_TEXTURE, glPopMatrix,
                   glPopClientAttrib, glPopAttrib] rt1
     else rt0)"

subsection \<open>Choosing the pipeline\<close>

definition double_1_29 :: rat where
  \<comment> \<open>the \<^verbatim>\<open>double\<close> nearest to 1.29, which is what the literal \<^verbatim>\<open>1.29\<close> denotes\<close>
  "double_1_29 = 1452410879826985 / 2 ^ 50"

text \<open>
  The two program texts that the source assembles are not part of the model; whether
  they compile is the parameter \<open>loadFromMemory\<close>.
\<close>

definition setupNonLegacyPipeline :: "Env \<Rightarrow> RenderTarget \<Rightarrow> RenderTarget" where
  "setupNonLegacyPipeline env rt0 =
    (let rt1 = (case m_defaultShader rt0 of None \<Rightarrow> rt0
                | Some old \<Rightarrow> emit [Shader_delete old] rt0);
         rt2 = rt1\<lparr>m_defaultShader := None\<rparr>
     in if \<not> Light_hasShaderLighting env then rt2
        else let versionNumber = (if SFML_LEGACY_GL env then 0 else Env.versionNumber env)
             in if double_1_29 < versionNumber
                then let rt3 = rt2\<lparr>m_defaultShader := Some (new_Shader env)\<rparr>;
                         rt4 = emit [Shader_loadFromMemory (new_Shader env)] rt3
                     in if \<not> loadFromMemory env
                        then (emit [err [Text ''Compiling default shader failed. Falling back to legacy pipeline...''],
                                    Shader_delete (new_Shader env)] rt4)
                               \<lparr>m_defaultShader := None\<rparr>
                        else rt4
                else rt2)"

definition initialize :: "Env \<Rightarrow> RenderTarget \<Rightarrow> RenderTarget" where
  "initialize env rt0 =
    (let rt1 = rt0\<lparr>m_defaultView := View_reset
                   \<lparr>rect_left = 0, rect_top = 0,
                    rect_width = static_cast_float (vec_x (getSize env)),
                    rect_height = static_cast_float (vec_y (getSize env))\<rparr>
                   (m_defaultView rt0)\<rparr>;
         rt2 = rt1\<lparr>m_view := Some (m_defaultView rt1)\<rparr>;
         rt3 = rt2\<lparr>m_cache := (m_cache rt2)\<lparr>glStatesSet := False\<rparr>\<rparr>
     in setupNonLegacyPipeline env rt3)"

definition RenderTarget_constructor ::
    "View \<Rightarrow> StatesCache \<Rightarrow> (nat \<Rightarrow> bool) \<Rightarrow> RenderTarget" where
  \<comment> \<open>the arguments are what the default constructors of \<^verbatim>\<open>View\<close> and \<^verbatim>\<open>StatesCache\<close>
      produce, and the flags of the shaders that exist\<close>
  "RenderTarget_constructor default_View default_StatesCache flags =
    \<lparr>m_defaultView = default_View, m_view = None,
     m_cache = default_StatesCache\<lparr>glStatesSet := False\<rparr>,
     m_depthTest = False, m_clearDepth = False, m_defaultShader = None,
     m_currentNonLegacyShader = None, m_lastNonLegacyShader = None,
     calls = [], warnMissing = flags\<rparr>"

subsection \<open>The blocks of the draw protocol\<close>

text \<open>
  The two primitive overloads of \<^verbatim>\<open>draw\<close> run the same blocks; each block of the source
  is one definition here, named after its comment, and takes the locals it reads.
\<close>

definition set_the_persistent_states :: "Env \<Rightarrow> RenderTarget \<Rightarrow> RenderTarget" where
  "set_the_persistent_states env rt =
    (if \<not> glStatesSet (m_cache rt) then resetGLStates env rt else rt)"

definition previous_warn_setting :: "RenderStates \<Rightarrow> RenderTarget \<Rightarrow> bool" where
  \<comment> \<open>the local \<^verbatim>\<open>previousShaderWarnSetting\<close>\<close>
  "previous_warn_setting states rt =
    (case (m_defaultShader rt, shader states) of
       (Some d, Some s) \<Rightarrow> warnMissing rt s
     | _ \<Rightarrow> True)"

definition select_shader :: "RenderStates \<Rightarrow> RenderTarget \<Rightarrow> RenderTarget" where
  "select_shader states rt =
    (if m_defaultShader rt \<noteq> None
     then (case shader states of
             Some s \<Rightarrow> rt\<lparr>m_currentNonLegacyShader := Some s,
                          warnMissing := (warnMissing rt)(s := False)\<rparr>
           | None \<Rightarrow> rt\<lparr>m_currentNonLegacyShader := m_defaultShader rt\<rparr>)
     else rt)"

definition shader_changed :: "RenderTarget \<Rightarrow> bool" where
  \<comment> \<open>the local \<^verbatim>\<open>shaderChanged\<close>, read once the current shader is selected\<close>
  "shader_changed rt =
    (m_defaultShader rt \<noteq> None \<and> m_currentNonLegacyShader rt \<noteq> m_lastNonLegacyShader rt)"

definition apply_the_view :: "Env \<Rightarrow> bool \<Rightarrow> RenderTarget \<Rightarrow> RenderTarget" where
  "apply_the_view env shaderChanged rt =
    (if shaderChanged \<or> viewChanged (m_cache rt) then applyCurrentView env rt else rt)"

definition apply_the_blend_mode :: "Env \<Rightarrow> RenderStates \<Rightarrow> RenderTarget \<Rightarrow> RenderTarget" where
  "apply_the_blend_mode env states rt =
    (if blendMode states \<noteq> lastBlendMode (m_cache rt)
     then applyBlendMode env (blendMode states) rt else rt)"

definition textureId :: "RenderStates \<Rightarrow> Uint64" where
  "textureId states = (case texture states of Some t \<Rightarrow> texture_cacheId t | None \<Rightarrow> 0)"

definition apply_the_texture :: "bool \<Rightarrow> RenderStates \<Rightarrow> RenderTarget \<Rightarrow> RenderTarget" where
  "apply_the_texture shaderChanged states rt =
    (if shaderChanged \<or> textureId states \<noteq> lastTextureId (m_cache rt)
     then applyTexture (texture states) rt else rt)"

definition apply_the_shader :: "RenderStates \<Rightarrow> RenderTarget \<Rightarrow> RenderTarget" where
  "apply_the_shader states rt =
    (if shader states \<noteq> None then applyShader (shader states) rt
     else if m_defaultShader rt \<noteq> None then applyShader (m_defaultShader rt) rt
     else rt)"

definition apply_the_vertex_buffer :: "VertexBuffer \<Rightarrow> RenderTarget \<Rightarrow> RenderTarget" where
  "apply_the_vertex_buffer buffer rt =
    (if buffer_cacheId buffer \<noteq> lastVertexBufferId (m_cache rt)
     then applyVertexBuffer (Some buffer) rt else rt)"

definition unbind_any_bound_vertex_buffer :: "RenderTarget \<Rightarrow> RenderTarget" where
  "unbind_any_bound_vertex_buffer rt =
    (if lastVertexBufferId (m_cache rt) \<noteq> 0 then applyVertexBuffer None rt else rt)"

definition unbind_the_shader :: "RenderStates \<Rightarrow> RenderTarget \<Rightarrow> RenderTarget" where
  "unbind_the_shader states rt =
    (if shader states \<noteq> None \<and> m_defaultShader rt = None then applyShader None rt else rt)"

definition record_the_shader :: "bool \<Rightarrow> RenderStates \<Rightarrow> RenderTarget \<Rightarrow> RenderTarget" where
  "record_the_shader previousShaderWarnSetting states rt =
    (if m_defaultShader rt \<noteq> None
     then let rt1 = (case shader states of
                       Some s \<Rightarrow> rt\<lparr>warnMissing :=
                                    (warnMissing rt)(s := previousShaderWarnSetting)\<rparr>
                     | None \<Rightarrow> rt)
          in rt1\<lparr>m_lastNonLegacyShader := m_currentNonLegacyShader rt1,
                 m_currentNonLegacyShader := None\<rparr>
     else rt)"

fun modes :: "PrimitiveType \<Rightarrow> GLenum" where
  "modes Points = GL_POINTS"
| "modes Lines = GL_LINES"
| "modes LinesStrip = GL_LINE_STRIP"
| "modes Triangles = GL_TRIANGLES"
| "modes TrianglesStrip = GL_TRIANGLE_STRIP"
| "modes TrianglesFan = GL_TRIANGLE_FAN"
| "modes Quads = GL_QUADS"

definition sizeof_Vertex :: nat where
  \<comment> \<open>three floats, four bytes, two floats, three floats: the offsets 12, 16 and 24 that
      the source writes out\<close>
  "sizeof_Vertex = 36"

fun plus_bytes :: "pointer \<Rightarrow> nat \<Rightarrow> pointer" where
  "plus_bytes (Into_vertices vs k) n = Into_vertices vs (k + n)"
| "plus_bytes (Into_vertexCache k) n = Into_vertexCache (k + n)"
| "plus_bytes (Null_plus k) n = Null_plus (k + n)"

definition light_parameters :: "Env \<Rightarrow> RenderTarget \<Rightarrow> call list" where
  "light_parameters env rt =
    (let sh = m_currentNonLegacyShader rt
     in if Light_isLightingEnabled env
        then [Shader_setParameter sh ''sf_LightCount''
                (Int_parameter (sint (word_of_nat (length (Light_getEnabledLights env)) :: 32 word)))]
             @ map (\<lambda>l. Light_addToShader l sh) (Light_getEnabledLights env)
             @ [Shader_setParameter sh ''sf_ViewerPosition''
                  (Vector3f_parameter (View_getPosition (m_view rt)))]
        else [Shader_setParameter sh ''sf_LightCount'' (Int_parameter 0)])"

definition attribute :: "int \<Rightarrow> nat \<Rightarrow> GLenum \<Rightarrow> bool \<Rightarrow> pointer \<Rightarrow> call list" where
  "attribute location n type normalized p =
    (if 0 \<le> location
     then [glEnableVertexAttribArrayARB location,
           glVertexAttribPointerARB location n type normalized sizeof_Vertex p]
     else [])"

definition disable_attribute :: "int \<Rightarrow> call list" where
  "disable_attribute location =
    (if 0 \<le> location then [glDisableVertexAttribArrayARB location] else [])"

definition draw_with_shader ::
    "Env \<Rightarrow> pointer \<Rightarrow> GLenum \<Rightarrow> nat \<Rightarrow> RenderTarget \<Rightarrow> RenderTarget" where
  \<comment> \<open>the \<^verbatim>\<open>else\<close> branch of "Setup the pointers to the vertices' components"; \<open>data\<close> is
      the base of the colour, texture coordinate and normal pointers (the position
      pointer is the literal 0 in both overloads)\<close>
  "draw_with_shader env data mode vertexCount rt =
    (let sh = m_currentNonLegacyShader rt;
         location = Shader_getVertexAttributeLocation_result env sh;
         vertexLocation = location ''sf_Vertex'';
         colorLocation = location ''sf_Color'';
         texCoordLocation = location ''sf_MultiTexCoord0'';
         normalLocation = location ''sf_Normal''
     in emit (light_parameters env rt
            @ [Shader_getVertexAttributeLocation sh ''sf_Vertex'',
               Shader_getVertexAttributeLocation sh ''sf_Color'',
               Shader_getVertexAttributeLocation sh ''sf_MultiTexCoord0'',
               Shader_getVertexAttributeLocation sh ''sf_Normal'']
            @ attribute vertexLocation 3 GL_FLOAT False (Null_plus 0)
            @ attribute colorLocation 4 GL_UNSIGNED_BYTE True (plus_bytes data 12)
            @ attribute texCoordLocation 2 GL_FLOAT False (plus_bytes data 16)
            @ attribute normalLocation 3 GL_FLOAT False (plus_bytes data 24)
            @ [glDrawArrays mode 0 vertexCount]
            @ disable_attribute vertexLocation
            @ disable_attribute colorLocation
            @ disable_attribute texCoordLocation
            @ disable_attribute normalLocation) rt)"

definition fixed_function_pointers :: "pointer \<Rightarrow> call list" where
  "fixed_function_pointers data =
    [glVertexPointer 3 GL_FLOAT sizeof_Vertex (plus_bytes data 0),
     glColorPointer 4 GL_UNSIGNED_BYTE sizeof_Vertex (plus_bytes data 12),
     glTexCoordPointer 2 GL_FLOAT sizeof_Vertex (plus_bytes data 16),
     glNormalPointer GL_FLOAT sizeof_Vertex (plus_bytes data 24)]"

subsection \<open>draw(const VertexBuffer&, const RenderStates&)\<close>

definition draw_the_buffer :: "Env \<Rightarrow> VertexBuffer \<Rightarrow> RenderTarget \<Rightarrow> RenderTarget" where
  "draw_the_buffer env buffer rt =
    (let mode = modes (getPrimitiveType buffer)
     in if m_defaultShader rt = None
        then emit (fixed_function_pointers (Null_plus 0)
                   @ [glDrawArrays mode 0 (getVertexCount buffer)]) rt
        else draw_with_shader env (Null_plus 0) mode (getVertexCount buffer) rt)"

definition draw_VertexBuffer ::
    "Env \<Rightarrow> VertexBuffer \<Rightarrow> RenderStates \<Rightarrow> RenderTarget \<Rightarrow> RenderTarget" where
  "draw_VertexBuffer env buffer states rt0 =
    (if getVertexCount buffer = 0 then rt0
     else if activate env then
       let rt1 = set_the_persistent_states env rt0;
           previousShaderWarnSetting = previous_warn_setting states rt1;
           rt2 = select_shader states rt1;
           shaderChanged = shader_changed rt2;
           rt3 = applyTransform env (transform states) rt2;
           rt4 = apply_the_view env shaderChanged rt3;
           rt5 = apply_the_blend_mode env states rt4;
           rt6 = apply_the_texture shaderChanged states rt5;
           rt7 = apply_the_shader states rt6;
           rt8 = apply_the_vertex_buffer buffer rt7;
           rt9 = draw_the_buffer env buffer rt8;
           rt10 = unbind_the_shader states rt9
       in record_the_shader previousShaderWarnSetting states rt10
     else rt0)"

subsection \<open>draw(const Vertex*, unsigned int, PrimitiveType, const RenderStates&)\<close>

text \<open>
  The caller's pointer is \<open>None\<close> when null and the array it points to otherwise. Reading
  the array at or beyond its length is undefined in the source and unspecified here
  (\<open>vertices ! i\<close>); the theorems read it below \<open>vertexCount\<close> only.
\<close>

function pre_transform ::
    "Transform \<Rightarrow> Vertex list \<Rightarrow> nat \<Rightarrow> nat \<Rightarrow> Vertex list \<Rightarrow> Vertex list" where
  "pre_transform tr vertices vertexCount i cache =
    (if i < vertexCount
     then pre_transform tr vertices vertexCount (Suc i)
            (cache[i := (cache ! i)\<lparr>position := TransformPoint tr (position (vertices ! i)),
                                   color := color (vertices ! i),
                                   texCoords := texCoords (vertices ! i),
                                   normal := normal (vertices ! i)\<rparr>])
     else cache)"
  by pat_completeness auto
termination
  by (relation "measure (\<lambda>(tr, vertices, vertexCount, i, cache). vertexCount - i)") auto

declare pre_transform.simps [simp del]

definition use_vertex_cache :: "Env \<Rightarrow> nat \<Rightarrow> RenderStates \<Rightarrow> RenderTarget \<Rightarrow> bool" where
  \<comment> \<open>the local \<^verbatim>\<open>useVertexCache\<close>\<close>
  "use_vertex_cache env vertexCount states rt =
    (m_defaultShader rt = None \<and> vertexCount \<le> VertexCacheSize env
     \<and> states_useVertexCache states)"

definition transform_the_vertices ::
    "Env \<Rightarrow> bool \<Rightarrow> Vertex list \<Rightarrow> nat \<Rightarrow> RenderStates \<Rightarrow> RenderTarget \<Rightarrow> RenderTarget" where
  "transform_the_vertices env useVertexCache' vertices vertexCount states rt =
    (if useVertexCache'
     then let rt1 = rt\<lparr>m_cache := (m_cache rt)\<lparr>vertexCache :=
                      pre_transform (transform states) vertices vertexCount 0
                        (vertexCache (m_cache rt))\<rparr>\<rparr>
          in if \<not> useVertexCache (m_cache rt1) then applyTransform env Identity rt1 else rt1
     else applyTransform env (transform states) rt)"

definition vertices_to_use :: "bool \<Rightarrow> Vertex list \<Rightarrow> RenderTarget \<Rightarrow> pointer" where
  \<comment> \<open>the pointer \<^verbatim>\<open>vertices\<close> after "If we pre-transform the vertices, we must use our
      internal vertex cache"\<close>
  "vertices_to_use useVertexCache' vertices rt =
    (if useVertexCache'
     then (if \<not> useVertexCache (m_cache rt) then Into_vertexCache 0 else Null_plus 0)
     else Into_vertices vertices 0)"

definition draw_the_array ::
    "Env \<Rightarrow> pointer \<Rightarrow> nat \<Rightarrow> PrimitiveType \<Rightarrow> RenderTarget \<Rightarrow> RenderTarget" where
  "draw_the_array env vertices vertexCount type rt =
    (let mode = modes type
     in if m_defaultShader rt = None
        then emit ((if vertices \<noteq> Null_plus 0 then fixed_function_pointers vertices else [])
                   @ [glDrawArrays mode 0 vertexCount]) rt
        else draw_with_shader env vertices mode vertexCount rt)"

definition draw_Vertices ::
    "Env \<Rightarrow> Vertex list option \<Rightarrow> nat \<Rightarrow> PrimitiveType \<Rightarrow> RenderStates
      \<Rightarrow> RenderTarget \<Rightarrow> RenderTarget" where
  "draw_Vertices env vertices vertexCount type states rt0 =
    (case vertices of
       None \<Rightarrow> rt0
     | Some vs \<Rightarrow>
       if vertexCount = 0 then rt0
       else if activate env then
         let rt1 = set_the_persistent_states env rt0;
             previousShaderWarnSetting = previous_warn_setting states rt1;
             rt2 = select_shader states rt1;
             shaderChanged = shader_changed rt2;
             useVertexCache' = use_vertex_cache env vertexCount states rt2;
             rt3 = transform_the_vertices env useVertexCache' vs vertexCount states rt2;
             rt4 = apply_the_view env shaderChanged rt3;
             rt5 = apply_the_blend_mode env states rt4;
             rt6 = apply_the_texture shaderChanged states rt5;
             rt7 = apply_the_shader states rt6;
             rt8 = unbind_any_bound_vertex_buffer rt7;
             rt9 = draw_the_array env (vertices_to_use useVertexCache' vs rt8)
                     vertexCount type rt8;
             rt10 = unbind_the_shader states rt9;
             rt11 = rt10\<lparr>m_cache := (m_cache rt10)\<lparr>useVertexCache := useVertexCache'\<rparr>\<rparr>
         in record_the_shader previousShaderWarnSetting states rt11
       else rt0)"

subsection \<open>The overloaded draw\<close>

datatype Submission =
  Array "Vertex list option" nat PrimitiveType
  | Buffer VertexBuffer

fun draw :: "Env \<Rightarrow> Submission \<Rightarrow> RenderStates \<Rightarrow> RenderTarget \<Rightarrow> RenderTarget" where
  "draw env (Array vertices vertexCount type) states rt =
     draw_Vertices env vertices vertexCount type states rt"
| "draw env (Buffer buffer) states rt = draw_VertexBuffer env buffer states rt"

fun nothing_to_draw :: "Submission \<Rightarrow> bool" where
  \<comment> \<open>the tests under "Nothing to draw?"\<close>
  "nothing_to_draw (Array None vertexCount type) = True"
| "nothing_to_draw (Array (Some vs) vertexCount type) = (vertexCount = 0)"
| "nothing_to_draw (Buffer buffer) = (getVertexCount buffer = 0)"

definition executed :: "Env \<Rightarrow> Submission \<Rightarrow> bool" where
  \<comment> \<open>the draw passes both tests and enters the protocol\<close>
  "executed env submission = (\<not> nothing_to_draw submission \<and> activate env)"

fun vertexBufferId :: "Submission \<Rightarrow> Uint64" where
  \<comment> \<open>the identity of the buffer the submission draws from, 0 for none\<close>
  "vertexBufferId (Array vertices vertexCount type) = 0"
| "vertexBufferId (Buffer buffer) = buffer_cacheId buffer"

fun primitive_mode :: "Submission \<Rightarrow> GLenum" where
  "primitive_mode (Array vertices vertexCount type) = modes type"
| "primitive_mode (Buffer buffer) = modes (getPrimitiveType buffer)"

fun vertex_count :: "Submission \<Rightarrow> nat" where
  "vertex_count (Array vertices vertexCount type) = vertexCount"
| "vertex_count (Buffer buffer) = getVertexCount buffer"

definition resolved_shader :: "RenderStates \<Rightarrow> RenderTarget \<Rightarrow> Shader_ptr" where
  \<comment> \<open>what "Apply the shader" binds: the override, else the default shader if any\<close>
  "resolved_shader states rt =
    (if shader states \<noteq> None then shader states else m_defaultShader rt)"

subsection \<open>The life of a target\<close>

text \<open>
  After \<open>initialize\<close> a target is used through its public member functions. The functions
  declared \<^verbatim>\<open>const\<close> change nothing; the others are the operations below. The drawable
  overload of \<^verbatim>\<open>draw\<close> hands the target and the states to \<^verbatim>\<open>Drawable::draw\<close>, which is
  the caller's code: of it the target sees the operations it performs on the target, in
  order, and that list stands for the drawable. Every operation gets the answers of the
  surroundings at its time; the operations of a drawable get those of the draw that
  runs it.
\<close>

datatype operation =
  Clear Color
  | EnableDepthTest bool
  | SetView View
  | Draw Submission RenderStates
  | Draw_Drawable "operation list" RenderStates
  | PushGLStates
  | PopGLStates
  | ResetGLStates

fun perform :: "Env \<Rightarrow> operation \<Rightarrow> RenderTarget \<Rightarrow> RenderTarget" where
  "perform env (Clear c) rt = clear env c rt"
| "perform env (EnableDepthTest enable) rt = enableDepthTest enable rt"
| "perform env (SetView view) rt = setView view rt"
| "perform env (Draw submission states) rt = draw env submission states rt"
| "perform env (Draw_Drawable drawable states) rt = fold (perform env) drawable rt"
| "perform env PushGLStates rt = pushGLStates env rt"
| "perform env PopGLStates rt = popGLStates env rt"
| "perform env ResetGLStates rt = resetGLStates env rt"

fun run :: "(Env \<times> operation) list \<Rightarrow> RenderTarget \<Rightarrow> RenderTarget" where
  "run [] rt = rt"
| "run ((env, operation) # rest) rt = run rest (perform env operation rt)"

subsection \<open>Reading the calls\<close>

text \<open>
  \<open>new_calls rt rt'\<close> are the calls made on the way from \<open>rt\<close> to \<open>rt'\<close>. Each applier
  makes one call that no other function of the file makes with such arguments, and \<open>steps\<close>
  reads a list of calls as the appliers that ran and the primitives that were drawn.
\<close>

definition new_calls :: "RenderTarget \<Rightarrow> RenderTarget \<Rightarrow> call list" where
  "new_calls rt rt' = drop (length (calls rt)) (calls rt')"

datatype step =
  View_applied
  | Transform_applied Transform
  | BlendMode_applied
  | Texture_applied
  | Shader_applied Shader_ptr
  | VertexBuffer_applied
  | Primitives_drawn

fun step_of :: "call \<Rightarrow> step option" where
  "step_of (glViewport vp) = Some View_applied"
| "step_of (glLoadMatrixf (Product (View_getViewTransform v) t)) = Some (Transform_applied t)"
| "step_of (Shader_setParameter sh name (Transform_parameter t)) =
     (if name = ''sf_ModelMatrix'' then Some (Transform_applied t) else None)"
| "step_of (Shader_setParameter sh name (Int_parameter i)) =
     (if name = ''sf_TextureEnabled'' then Some Texture_applied else None)"
| "step_of (glBlendFunc sfactor dfactor) = Some BlendMode_applied"
| "step_of (glBlendFuncSeparateEXT srcRGB dstRGB srcAlpha dstAlpha) = Some BlendMode_applied"
| "step_of (Texture_bind tex coordinateType) = Some Texture_applied"
| "step_of (Shader_bind sh) = Some (Shader_applied sh)"
| "step_of (VertexBuffer_bind buffer) = Some VertexBuffer_applied"
| "step_of (glDrawArrays mode first n) = Some Primitives_drawn"
| "step_of c = None"

fun steps :: "call list \<Rightarrow> step list" where
  "steps [] = []"
| "steps (c # cs) = (case step_of c of Some s \<Rightarrow> s # steps cs | None \<Rightarrow> steps cs)"

fun transforms :: "step list \<Rightarrow> Transform list" where
  \<comment> \<open>the arguments of the transform applier, in order\<close>
  "transforms [] = []"
| "transforms (Transform_applied t # ss) = t # transforms ss"
| "transforms (s # ss) = transforms ss"

fun cached_applier :: "step \<Rightarrow> bool" where
  \<comment> \<open>the blend-mode, texture and vertex-buffer appliers\<close>
  "cached_applier BlendMode_applied = True"
| "cached_applier Texture_applied = True"
| "cached_applier VertexBuffer_applied = True"
| "cached_applier s = False"

fun shader_step :: "step \<Rightarrow> bool" where
  \<comment> \<open>the shader applier\<close>
  "shader_step (Shader_applied sh) = True"
| "shader_step s = False"

fun shader_bind :: "call \<Rightarrow> bool" where
  "shader_bind (Shader_bind sh) = True"
| "shader_bind c = False"

definition shaderChanged_at :: "RenderStates \<Rightarrow> RenderTarget \<Rightarrow> bool" where
  \<comment> \<open>the value the local \<^verbatim>\<open>shaderChanged\<close> takes in a draw that starts in \<open>rt\<close>\<close>
  "shaderChanged_at states rt =
    (m_defaultShader rt \<noteq> None \<and> resolved_shader states rt \<noteq> m_lastNonLegacyShader rt)"

definition protocol_steps :: "RenderStates \<Rightarrow> RenderTarget \<Rightarrow> step list" where
  \<comment> \<open>what the blocks "Apply the view" to "Apply the shader" do, read as steps\<close>
  "protocol_steps states rt =
     (if shaderChanged_at states rt \<or> viewChanged (m_cache rt) then [View_applied] else [])
     @ (if blendMode states \<noteq> lastBlendMode (m_cache rt) then [BlendMode_applied] else [])
     @ (if shaderChanged_at states rt \<or> textureId states \<noteq> lastTextureId (m_cache rt)
        then [Texture_applied] else [])
     @ (if resolved_shader states rt \<noteq> None
        then [Shader_applied (resolved_shader states rt)] else [])"

fun transform_steps :: "Env \<Rightarrow> Submission \<Rightarrow> RenderStates \<Rightarrow> RenderTarget \<Rightarrow> step list" where
  \<comment> \<open>what the transform block of each overload does, read as steps\<close>
  "transform_steps env (Array vertices vertexCount type) states rt =
     (if use_vertex_cache env vertexCount states rt
      then (if \<not> useVertexCache (m_cache rt) then [Transform_applied Identity] else [])
      else [Transform_applied (transform states)])"
| "transform_steps env (Buffer buffer) states rt = [Transform_applied (transform states)]"

subsection \<open>Concrete inputs\<close>

definition unit_viewport :: View where
  "unit_viewport =
    \<lparr>viewport = \<lparr>rect_left = 0, rect_top = 0, rect_width = 1, rect_height = 1\<rparr>,
     area = \<lparr>rect_left = 0, rect_top = 0, rect_width = 1000, rect_height = 1000\<rparr>\<rparr>"

definition white_vertex :: Vertex where
  "white_vertex =
    \<lparr>position = Vector3f 0 0 0,
     color = \<lparr>red = 255, green = 255, blue = 255, alpha = 255\<rparr>,
     texCoords = \<lparr>vec_x = 0, vec_y = 0\<rparr>, normal = Vector3f 0 0 1\<rparr>"

definition empty_cache :: StatesCache where
  "empty_cache =
    \<lparr>glStatesSet = False, viewChanged = False, lastBlendMode = BlendAlpha,
     lastTextureId = 0, lastVertexBufferId = 0, useVertexCache = False,
     vertexCache = replicate 4 white_vertex\<rparr>"

definition new_target :: RenderTarget where
  "new_target = RenderTarget_constructor unit_viewport empty_cache (\<lambda>sh. True)"

definition attribute_locations :: "Shader_ptr \<Rightarrow> string \<Rightarrow> int" where
  "attribute_locations sh name =
    (if name = ''sf_Vertex'' then 0 else if name = ''sf_Color'' then 1
     else if name = ''sf_MultiTexCoord0'' then 2 else if name = ''sf_Normal'' then 3
     else - 1)"

definition legacy_env :: Env where
  \<comment> \<open>shaders exist, shader lighting does not\<close>
  "legacy_env =
    \<lparr>activate = True, getSize = \<lparr>vec_x = 800, vec_y = 600\<rparr>, VertexCacheSize = 4,
     SFML_LEGACY_GL = False, GLEW_EXT_blend_func_separate = True,
     Shader_isAvailable = True, Shader_getVertexAttributeLocation_result = attribute_locations,
     VertexBuffer_isAvailable = True, Light_isLightingEnabled = False,
     Light_getEnabledLights = [], Light_hasShaderLighting = False, versionNumber = 9 / 2,
     new_Shader = 4096, loadFromMemory = True, SFML_DEBUG = False,
     glGetError_result = 0\<rparr>"

definition fixed_function_env :: Env where
  \<comment> \<open>a device without shaders\<close>
  "fixed_function_env = legacy_env\<lparr>Shader_isAvailable := False, versionNumber := 0\<rparr>"

definition shader_env :: Env where
  "shader_env = legacy_env\<lparr>Light_hasShaderLighting := True\<rparr>"

definition legacy_build_env :: Env where
  \<comment> \<open>the device of \<open>shader_env\<close>, the library built with \<^verbatim>\<open>SFML_LEGACY_GL\<close>\<close>
  "legacy_build_env = shader_env\<lparr>SFML_LEGACY_GL := True\<rparr>"

definition texture_1 :: Texture where
  "texture_1 =
    \<lparr>texture_address = 20480, texture_cacheId = 1, m_size = \<lparr>vec_x = 100, vec_y = 60\<rparr>,
     m_actualSize = \<lparr>vec_x = 128, vec_y = 64\<rparr>, m_pixelsFlipped = False\<rparr>"

definition texture_2 :: Texture where
  \<comment> \<open>created at the address of \<open>texture_1\<close> after it was destroyed\<close>
  "texture_2 = texture_1\<lparr>texture_cacheId := 2\<rparr>"

definition triangle :: "Vertex list" where
  "triangle =
    [white_vertex\<lparr>position := Vector3f 0 0 0\<rparr>, white_vertex\<lparr>position := Vector3f 10 0 0\<rparr>,
     white_vertex\<lparr>position := Vector3f 0 10 0\<rparr>]"

definition plain_states :: RenderStates where
  "plain_states =
    \<lparr>transform = Matrix [1, 0, 0, 5, 0, 1, 0, 7, 0, 0, 1, 0, 0, 0, 0, 1],
     blendMode = BlendAlpha, texture = None, shader = None, states_useVertexCache = True\<rparr>"

definition textured_states :: "Texture \<Rightarrow> RenderStates" where
  "textured_states tex = plain_states\<lparr>texture := Some tex\<rparr>"

definition triangle_buffer :: VertexBuffer where
  "triangle_buffer =
    \<lparr>buffer_address = 24576, buffer_cacheId = 7, getVertexCount = 3,
     getPrimitiveType = Triangles\<rparr>"

definition legacy_target :: RenderTarget where
  "legacy_target = initialize legacy_env new_target"

definition shader_target :: RenderTarget where
  "shader_target = initialize shader_env new_target"

definition draw_triangle :: "RenderStates \<Rightarrow> RenderTarget \<Rightarrow> RenderTarget" where
  "draw_triangle states rt = draw legacy_env (Array (Some triangle) 3 Triangles) states rt"

definition transform_in_effect :: "RenderTarget \<Rightarrow> Transform option" where
  \<comment> \<open>the argument of the latest run of the transform applier, if it ever ran\<close>
  "transform_in_effect rt =
    (let applied = transforms (steps (calls rt))
     in if applied = [] then None else Some (last applied))"

definition shaded_states :: RenderStates where
  \<comment> \<open>a per-draw shader override, the shader at address 12288\<close>
  "shaded_states = plain_states\<lparr>shader := Some 12288\<rparr>"

definition moved_states :: RenderStates where
  "moved_states =
    plain_states\<lparr>transform := Matrix [1, 0, 0, 100, 0, 1, 0, 200, 0, 0, 1, 0, 0, 0, 0, 1]\<rparr>"

definition buffer_after_triangle :: RenderTarget where
  \<comment> \<open>the legacy target after the triangle is drawn through the vertex cache and a
      vertex buffer is drawn with another transform\<close>
  "buffer_after_triangle =
    draw legacy_env (Buffer triangle_buffer) moved_states
      (draw_triangle plain_states legacy_target)"

definition fixed_function_target :: RenderTarget where
  "fixed_function_target = initialize fixed_function_env new_target"

section \<open>Properties\<close>

subsection \<open>What each function changes and which calls it makes\<close>

lemma steps_append [simp]: "steps (xs @ ys) = steps xs @ steps ys"
  by (induction xs) (simp_all split: option.splits)

lemma transforms_append [simp]: "transforms (xs @ ys) = transforms xs @ transforms ys"
  by (induction xs rule: transforms.induct) simp_all

lemma new_calls_self [simp]: "new_calls rt rt = []"
  by (simp add: new_calls_def)

lemma new_calls_eqI: "calls rt' = calls rt @ cs \<Longrightarrow> new_calls rt rt' = cs"
  by (simp add: new_calls_def)

lemma emit_simps [simp]:
  "calls (emit cs rt) = calls rt @ cs"
  "m_cache (emit cs rt) = m_cache rt"
  "m_view (emit cs rt) = m_view rt"
  "m_defaultView (emit cs rt) = m_defaultView rt"
  "m_depthTest (emit cs rt) = m_depthTest rt"
  "m_clearDepth (emit cs rt) = m_clearDepth rt"
  "m_defaultShader (emit cs rt) = m_defaultShader rt"
  "m_currentNonLegacyShader (emit cs rt) = m_currentNonLegacyShader rt"
  "m_lastNonLegacyShader (emit cs rt) = m_lastNonLegacyShader rt"
  "warnMissing (emit cs rt) = warnMissing rt"
  by (simp_all add: emit_def)

lemma current_shader_emit [simp]: "current_shader (emit cs rt) = current_shader rt"
  by (simp add: current_shader_def)

named_theorems extends

lemma extends_if [extends]:
  "prefix xs (calls a) \<Longrightarrow> prefix xs (calls b) \<Longrightarrow> prefix xs (calls (if c then a else b))"
  by simp

lemma emit_extends [extends]: "prefix xs (calls rt) \<Longrightarrow> prefix xs (calls (emit cs rt))"
  by (simp add: emit_def)

lemma update_extends [extends]:
  "prefix xs (calls rt) \<Longrightarrow> prefix xs (calls (rt\<lparr>m_cache := c\<rparr>))"
  "prefix xs (calls rt) \<Longrightarrow> prefix xs (calls (rt\<lparr>m_view := v\<rparr>))"
  "prefix xs (calls rt) \<Longrightarrow> prefix xs (calls (rt\<lparr>m_defaultView := dv\<rparr>))"
  "prefix xs (calls rt) \<Longrightarrow> prefix xs (calls (rt\<lparr>m_defaultShader := d\<rparr>))"
  "prefix xs (calls rt) \<Longrightarrow> prefix xs (calls (rt\<lparr>m_currentNonLegacyShader := d\<rparr>))"
  "prefix xs (calls rt) \<Longrightarrow> prefix xs (calls (rt\<lparr>m_lastNonLegacyShader := d\<rparr>))"
  "prefix xs (calls rt) \<Longrightarrow> prefix xs (calls (rt\<lparr>warnMissing := w\<rparr>))"
  by simp_all

lemma applyShader_extends [extends]:
  "prefix xs (calls rt) \<Longrightarrow> prefix xs (calls (applyShader sh rt))"
  unfolding applyShader_def by (intro extends)

lemma applyVertexBuffer_extends [extends]:
  "prefix xs (calls rt) \<Longrightarrow> prefix xs (calls (applyVertexBuffer buffer rt))"
  unfolding applyVertexBuffer_def Let_def by (intro extends)

lemma applyTexture_extends [extends]:
  "prefix xs (calls rt) \<Longrightarrow> prefix xs (calls (applyTexture tex rt))"
  unfolding applyTexture_def Let_def by (cases tex) (simp_all add: extends)

lemma applyBlendMode_extends [extends]:
  "prefix xs (calls rt) \<Longrightarrow> prefix xs (calls (applyBlendMode env mode rt))"
  unfolding applyBlendMode_def Let_def by (cases mode) (simp_all add: extends)

lemma applyTransform_extends [extends]:
  "prefix xs (calls rt) \<Longrightarrow> prefix xs (calls (applyTransform env tr rt))"
  unfolding applyTransform_def Let_def by (intro extends)

lemma applyCurrentView_extends [extends]:
  "prefix xs (calls rt) \<Longrightarrow> prefix xs (calls (applyCurrentView env rt))"
  unfolding applyCurrentView_def Let_def by (intro extends)

lemma setView_extends [extends]:
  "prefix xs (calls rt) \<Longrightarrow> prefix xs (calls (setView v rt))"
  unfolding setView_def by (intro extends)

lemma resetGLStates_extends [extends]:
  "prefix xs (calls rt) \<Longrightarrow> prefix xs (calls (resetGLStates env rt))"
  unfolding resetGLStates_def Let_def by (intro extends)

lemma set_the_persistent_states_extends [extends]:
  "prefix xs (calls rt) \<Longrightarrow> prefix xs (calls (set_the_persistent_states env rt))"
  unfolding set_the_persistent_states_def by (intro extends)

lemma select_shader_extends [extends]:
  "prefix xs (calls rt) \<Longrightarrow> prefix xs (calls (select_shader states rt))"
  unfolding select_shader_def by (cases "shader states") (simp_all add: extends)

lemma apply_the_view_extends [extends]:
  "prefix xs (calls rt) \<Longrightarrow> prefix xs (calls (apply_the_view env sc rt))"
  unfolding apply_the_view_def by (intro extends)

lemma apply_the_blend_mode_extends [extends]:
  "prefix xs (calls rt) \<Longrightarrow> prefix xs (calls (apply_the_blend_mode env states rt))"
  unfolding apply_the_blend_mode_def by (intro extends)

lemma apply_the_texture_extends [extends]:
  "prefix xs (calls rt) \<Longrightarrow> prefix xs (calls (apply_the_texture sc states rt))"
  unfolding apply_the_texture_def by (intro extends)

lemma apply_the_shader_extends [extends]:
  "prefix xs (calls rt) \<Longrightarrow> prefix xs (calls (apply_the_shader states rt))"
  unfolding apply_the_shader_def by (intro extends)

lemma apply_the_vertex_buffer_extends [extends]:
  "prefix xs (calls rt) \<Longrightarrow> prefix xs (calls (apply_the_vertex_buffer buffer rt))"
  unfolding apply_the_vertex_buffer_def by (intro extends)

lemma unbind_any_bound_vertex_buffer_extends [extends]:
  "prefix xs (calls rt) \<Longrightarrow> prefix xs (calls (unbind_any_bound_vertex_buffer rt))"
  unfolding unbind_any_bound_vertex_buffer_def by (intro extends)

lemma unbind_the_shader_extends [extends]:
  "prefix xs (calls rt) \<Longrightarrow> prefix xs (calls (unbind_the_shader states rt))"
  unfolding unbind_the_shader_def by (intro extends)

lemma record_the_shader_extends [extends]:
  "prefix xs (calls rt) \<Longrightarrow> prefix xs (calls (record_the_shader p states rt))"
  unfolding record_the_shader_def Let_def by (cases "shader states") (simp_all add: extends)

lemma draw_with_shader_extends [extends]:
  "prefix xs (calls rt) \<Longrightarrow> prefix xs (calls (draw_with_shader env data mode n rt))"
  unfolding draw_with_shader_def Let_def by (intro extends)

lemma draw_the_buffer_extends [extends]:
  "prefix xs (calls rt) \<Longrightarrow> prefix xs (calls (draw_the_buffer env buffer rt))"
  unfolding draw_the_buffer_def Let_def by (intro extends)

lemma draw_the_array_extends [extends]:
  "prefix xs (calls rt) \<Longrightarrow> prefix xs (calls (draw_the_array env vertices n type rt))"
  unfolding draw_the_array_def Let_def by (intro extends)

lemma transform_the_vertices_extends [extends]:
  "prefix xs (calls rt) \<Longrightarrow> prefix xs (calls (transform_the_vertices env c vs n states rt))"
  unfolding transform_the_vertices_def Let_def by (intro extends)

lemma draw_VertexBuffer_extends [extends]:
  "prefix xs (calls rt) \<Longrightarrow> prefix xs (calls (draw_VertexBuffer env buffer states rt))"
  unfolding draw_VertexBuffer_def Let_def by (intro extends)

lemma draw_Vertices_extends [extends]:
  "prefix xs (calls rt) \<Longrightarrow> prefix xs (calls (draw_Vertices env vertices n type states rt))"
  unfolding draw_Vertices_def Let_def by (cases vertices) (simp_all add: extends)

lemma draw_extends [extends]:
  "prefix xs (calls rt) \<Longrightarrow> prefix xs (calls (draw env submission states rt))"
  by (cases submission) (simp_all add: extends)

lemma applyShader_simps [simp]:
  "calls (applyShader sh rt) = calls rt @ [Shader_bind sh]"
  "m_cache (applyShader sh rt) = m_cache rt"
  "m_view (applyShader sh rt) = m_view rt"
  "m_defaultView (applyShader sh rt) = m_defaultView rt"
  "m_defaultShader (applyShader sh rt) = m_defaultShader rt"
  "m_currentNonLegacyShader (applyShader sh rt) = m_currentNonLegacyShader rt"
  "m_lastNonLegacyShader (applyShader sh rt) = m_lastNonLegacyShader rt"
  "warnMissing (applyShader sh rt) = warnMissing rt"
  by (simp_all add: applyShader_def)

lemma applyVertexBuffer_simps [simp]:
  "calls (applyVertexBuffer buffer rt) = calls rt @ [VertexBuffer_bind buffer]"
  "m_cache (applyVertexBuffer buffer rt) = (m_cache rt)\<lparr>lastVertexBufferId :=
      (case buffer of Some vb \<Rightarrow> buffer_cacheId vb | None \<Rightarrow> 0)\<rparr>"
  "m_view (applyVertexBuffer buffer rt) = m_view rt"
  "m_defaultView (applyVertexBuffer buffer rt) = m_defaultView rt"
  "m_defaultShader (applyVertexBuffer buffer rt) = m_defaultShader rt"
  "m_currentNonLegacyShader (applyVertexBuffer buffer rt) = m_currentNonLegacyShader rt"
  "m_lastNonLegacyShader (applyVertexBuffer buffer rt) = m_lastNonLegacyShader rt"
  "warnMissing (applyVertexBuffer buffer rt) = warnMissing rt"
  by (simp_all add: applyVertexBuffer_def)

lemma applyTexture_simps [simp]:
  "steps (calls (applyTexture tex rt)) = steps (calls rt) @ [Texture_applied]"
  "m_cache (applyTexture tex rt) = (m_cache rt)\<lparr>lastTextureId :=
      (case tex of Some t \<Rightarrow> texture_cacheId t | None \<Rightarrow> 0)\<rparr>"
  "m_view (applyTexture tex rt) = m_view rt"
  "m_defaultView (applyTexture tex rt) = m_defaultView rt"
  "m_defaultShader (applyTexture tex rt) = m_defaultShader rt"
  "m_currentNonLegacyShader (applyTexture tex rt) = m_currentNonLegacyShader rt"
  "m_lastNonLegacyShader (applyTexture tex rt) = m_lastNonLegacyShader rt"
  "warnMissing (applyTexture tex rt) = warnMissing rt"
  by (simp_all add: applyTexture_def Let_def split: option.splits)

lemma applyBlendMode_simps [simp]:
  "steps (calls (applyBlendMode env mode rt)) = steps (calls rt) @ [BlendMode_applied]"
  "m_cache (applyBlendMode env mode rt) = (m_cache rt)\<lparr>lastBlendMode := mode\<rparr>"
  "m_view (applyBlendMode env mode rt) = m_view rt"
  "m_defaultView (applyBlendMode env mode rt) = m_defaultView rt"
  "m_defaultShader (applyBlendMode env mode rt) = m_defaultShader rt"
  "m_currentNonLegacyShader (applyBlendMode env mode rt) = m_currentNonLegacyShader rt"
  "m_lastNonLegacyShader (applyBlendMode env mode rt) = m_lastNonLegacyShader rt"
  "warnMissing (applyBlendMode env mode rt) = warnMissing rt"
  by (simp_all add: applyBlendMode_def Let_def split: BlendMode.splits)

lemma applyTransform_simps [simp]:
  "steps (calls (applyTransform env tr rt)) = steps (calls rt) @ [Transform_applied tr]"
  "m_cache (applyTransform env tr rt) = m_cache rt"
  "m_view (applyTransform env tr rt) = m_view rt"
  "m_defaultView (applyTransform env tr rt) = m_defaultView rt"
  "m_defaultShader (applyTransform env tr rt) = m_defaultShader rt"
  "m_currentNonLegacyShader (applyTransform env tr rt) = m_currentNonLegacyShader rt"
  "m_lastNonLegacyShader (applyTransform env tr rt) = m_lastNonLegacyShader rt"
  "warnMissing (applyTransform env tr rt) = warnMissing rt"
  by (simp_all add: applyTransform_def Let_def)

lemma applyCurrentView_simps [simp]:
  "steps (calls (applyCurrentView env rt)) = steps (calls rt) @ [View_applied]"
  "m_cache (applyCurrentView env rt) = (m_cache rt)\<lparr>viewChanged := False\<rparr>"
  "m_view (applyCurrentView env rt) = m_view rt"
  "m_defaultView (applyCurrentView env rt) = m_defaultView rt"
  "m_defaultShader (applyCurrentView env rt) = m_defaultShader rt"
  "m_currentNonLegacyShader (applyCurrentView env rt) = m_currentNonLegacyShader rt"
  "m_lastNonLegacyShader (applyCurrentView env rt) = m_lastNonLegacyShader rt"
  "warnMissing (applyCurrentView env rt) = warnMissing rt"
  by (simp_all add: applyCurrentView_def Let_def)


lemma setView_simps [simp]:
  "calls (setView v rt) = calls rt"
  "m_cache (setView v rt) = (m_cache rt)\<lparr>viewChanged := True\<rparr>"
  "m_view (setView v rt) = Some v"
  "m_defaultView (setView v rt) = m_defaultView rt"
  "m_defaultShader (setView v rt) = m_defaultShader rt"
  "m_currentNonLegacyShader (setView v rt) = m_currentNonLegacyShader rt"
  "m_lastNonLegacyShader (setView v rt) = m_lastNonLegacyShader rt"
  "warnMissing (setView v rt) = warnMissing rt"
  by (simp_all add: setView_def)

lemma prefix_steps:
  "prefix (calls rt) (calls rt') \<Longrightarrow> steps (calls rt') = steps (calls rt) @ ss
    \<Longrightarrow> steps (new_calls rt rt') = ss"
  by (auto simp add: prefix_def new_calls_def)

lemma new_calls_trans:
  "prefix (calls a) (calls b) \<Longrightarrow> prefix (calls b) (calls c)
    \<Longrightarrow> new_calls a c = new_calls a b @ new_calls b c"
  by (auto simp add: prefix_def new_calls_def)

lemma resetGLStates_simps [simp]:
  "activate env \<Longrightarrow> steps (calls (resetGLStates env rt)) = steps (calls rt)
     @ [BlendMode_applied, Transform_applied Identity, Texture_applied]
     @ (if Shader_isAvailable env then [Shader_applied (m_defaultShader rt)] else [])
     @ (if VertexBuffer_isAvailable env then [VertexBuffer_applied] else [])"
  "activate env \<Longrightarrow> m_cache (resetGLStates env rt) = (m_cache rt)\<lparr>glStatesSet := True,
     lastBlendMode := BlendAlpha, lastTextureId := 0,
     lastVertexBufferId := (if VertexBuffer_isAvailable env then 0
                            else lastVertexBufferId (m_cache rt)),
     useVertexCache := False, viewChanged := True\<rparr>"
  "activate env \<Longrightarrow> m_view (resetGLStates env rt) = Some (m_defaultView rt)"
  "m_defaultView (resetGLStates env rt) = m_defaultView rt"
  "m_defaultShader (resetGLStates env rt) = m_defaultShader rt"
  "m_currentNonLegacyShader (resetGLStates env rt) = m_currentNonLegacyShader rt"
  "m_lastNonLegacyShader (resetGLStates env rt) = m_lastNonLegacyShader rt"
  "warnMissing (resetGLStates env rt) = warnMissing rt"
  by (simp_all add: resetGLStates_def Let_def)


lemma set_the_persistent_states_simps [simp]:
  "m_defaultView (set_the_persistent_states env rt) = m_defaultView rt"
  "m_defaultShader (set_the_persistent_states env rt) = m_defaultShader rt"
  "m_currentNonLegacyShader (set_the_persistent_states env rt) = m_currentNonLegacyShader rt"
  "m_lastNonLegacyShader (set_the_persistent_states env rt) = m_lastNonLegacyShader rt"
  "warnMissing (set_the_persistent_states env rt) = warnMissing rt"
  "activate env \<Longrightarrow> glStatesSet (m_cache (set_the_persistent_states env rt))"
  by (simp_all add: set_the_persistent_states_def)

lemma set_the_persistent_states_id [simp]:
  "glStatesSet (m_cache rt) \<Longrightarrow> set_the_persistent_states env rt = rt"
  by (simp add: set_the_persistent_states_def)

lemma select_shader_simps [simp]:
  "calls (select_shader states rt) = calls rt"
  "m_cache (select_shader states rt) = m_cache rt"
  "m_view (select_shader states rt) = m_view rt"
  "m_defaultView (select_shader states rt) = m_defaultView rt"
  "m_defaultShader (select_shader states rt) = m_defaultShader rt"
  "m_lastNonLegacyShader (select_shader states rt) = m_lastNonLegacyShader rt"
  "m_currentNonLegacyShader (select_shader states rt) =
     (if m_defaultShader rt \<noteq> None then resolved_shader states rt
      else m_currentNonLegacyShader rt)"
  by (auto simp add: select_shader_def resolved_shader_def split: option.splits)

lemma shader_changed_select [simp]:
  "shader_changed (select_shader states rt) =
     (m_defaultShader rt \<noteq> None \<and> resolved_shader states rt \<noteq> m_lastNonLegacyShader rt)"
  by (auto simp add: shader_changed_def)

lemma apply_the_view_simps [simp]:
  "steps (calls (apply_the_view env sc rt)) = steps (calls rt)
     @ (if sc \<or> viewChanged (m_cache rt) then [View_applied] else [])"
  "m_cache (apply_the_view env sc rt) = (m_cache rt)\<lparr>viewChanged := False\<rparr>"
  "m_view (apply_the_view env sc rt) = m_view rt"
  "m_defaultView (apply_the_view env sc rt) = m_defaultView rt"
  "m_defaultShader (apply_the_view env sc rt) = m_defaultShader rt"
  "m_currentNonLegacyShader (apply_the_view env sc rt) = m_currentNonLegacyShader rt"
  "m_lastNonLegacyShader (apply_the_view env sc rt) = m_lastNonLegacyShader rt"
  "warnMissing (apply_the_view env sc rt) = warnMissing rt"
  by (auto simp add: apply_the_view_def)

lemma apply_the_blend_mode_simps [simp]:
  "steps (calls (apply_the_blend_mode env states rt)) = steps (calls rt)
     @ (if blendMode states \<noteq> lastBlendMode (m_cache rt) then [BlendMode_applied] else [])"
  "m_cache (apply_the_blend_mode env states rt) = (m_cache rt)\<lparr>lastBlendMode := blendMode states\<rparr>"
  "m_view (apply_the_blend_mode env states rt) = m_view rt"
  "m_defaultView (apply_the_blend_mode env states rt) = m_defaultView rt"
  "m_defaultShader (apply_the_blend_mode env states rt) = m_defaultShader rt"
  "m_currentNonLegacyShader (apply_the_blend_mode env states rt) = m_currentNonLegacyShader rt"
  "m_lastNonLegacyShader (apply_the_blend_mode env states rt) = m_lastNonLegacyShader rt"
  "warnMissing (apply_the_blend_mode env states rt) = warnMissing rt"
  by (auto simp add: apply_the_blend_mode_def)

lemma apply_the_texture_simps [simp]:
  "steps (calls (apply_the_texture sc states rt)) = steps (calls rt)
     @ (if sc \<or> textureId states \<noteq> lastTextureId (m_cache rt) then [Texture_applied] else [])"
  "m_cache (apply_the_texture sc states rt) = (m_cache rt)\<lparr>lastTextureId := textureId states\<rparr>"
  "m_view (apply_the_texture sc states rt) = m_view rt"
  "m_defaultView (apply_the_texture sc states rt) = m_defaultView rt"
  "m_defaultShader (apply_the_texture sc states rt) = m_defaultShader rt"
  "m_currentNonLegacyShader (apply_the_texture sc states rt) = m_currentNonLegacyShader rt"
  "m_lastNonLegacyShader (apply_the_texture sc states rt) = m_lastNonLegacyShader rt"
  "warnMissing (apply_the_texture sc states rt) = warnMissing rt"
  by (auto simp add: apply_the_texture_def textureId_def)

lemma apply_the_shader_simps [simp]:
  "calls (apply_the_shader states rt) = calls rt
     @ (if resolved_shader states rt \<noteq> None then [Shader_bind (resolved_shader states rt)] else [])"
  "m_cache (apply_the_shader states rt) = m_cache rt"
  "m_view (apply_the_shader states rt) = m_view rt"
  "m_defaultView (apply_the_shader states rt) = m_defaultView rt"
  "m_defaultShader (apply_the_shader states rt) = m_defaultShader rt"
  "m_currentNonLegacyShader (apply_the_shader states rt) = m_currentNonLegacyShader rt"
  "m_lastNonLegacyShader (apply_the_shader states rt) = m_lastNonLegacyShader rt"
  "warnMissing (apply_the_shader states rt) = warnMissing rt"
  by (auto simp add: apply_the_shader_def resolved_shader_def)

lemma apply_the_vertex_buffer_simps [simp]:
  "calls (apply_the_vertex_buffer buffer rt) = calls rt
     @ (if buffer_cacheId buffer \<noteq> lastVertexBufferId (m_cache rt)
        then [VertexBuffer_bind (Some buffer)] else [])"
  "m_cache (apply_the_vertex_buffer buffer rt) =
     (m_cache rt)\<lparr>lastVertexBufferId := buffer_cacheId buffer\<rparr>"
  "m_view (apply_the_vertex_buffer buffer rt) = m_view rt"
  "m_defaultView (apply_the_vertex_buffer buffer rt) = m_defaultView rt"
  "m_defaultShader (apply_the_vertex_buffer buffer rt) = m_defaultShader rt"
  "m_currentNonLegacyShader (apply_the_vertex_buffer buffer rt) = m_currentNonLegacyShader rt"
  "m_lastNonLegacyShader (apply_the_vertex_buffer buffer rt) = m_lastNonLegacyShader rt"
  "warnMissing (apply_the_vertex_buffer buffer rt) = warnMissing rt"
  by (auto simp add: apply_the_vertex_buffer_def)

lemma unbind_any_bound_vertex_buffer_simps [simp]:
  "calls (unbind_any_bound_vertex_buffer rt) = calls rt
     @ (if lastVertexBufferId (m_cache rt) \<noteq> 0 then [VertexBuffer_bind None] else [])"
  "m_cache (unbind_any_bound_vertex_buffer rt) = (m_cache rt)\<lparr>lastVertexBufferId := 0\<rparr>"
  "m_view (unbind_any_bound_vertex_buffer rt) = m_view rt"
  "m_defaultView (unbind_any_bound_vertex_buffer rt) = m_defaultView rt"
  "m_defaultShader (unbind_any_bound_vertex_buffer rt) = m_defaultShader rt"
  "m_currentNonLegacyShader (unbind_any_bound_vertex_buffer rt) = m_currentNonLegacyShader rt"
  "m_lastNonLegacyShader (unbind_any_bound_vertex_buffer rt) = m_lastNonLegacyShader rt"
  "warnMissing (unbind_any_bound_vertex_buffer rt) = warnMissing rt"
  by (auto simp add: unbind_any_bound_vertex_buffer_def)

lemma unbind_the_shader_simps [simp]:
  "calls (unbind_the_shader states rt) = calls rt
     @ (if shader states \<noteq> None \<and> m_defaultShader rt = None then [Shader_bind None] else [])"
  "m_cache (unbind_the_shader states rt) = m_cache rt"
  "m_view (unbind_the_shader states rt) = m_view rt"
  "m_defaultView (unbind_the_shader states rt) = m_defaultView rt"
  "m_defaultShader (unbind_the_shader states rt) = m_defaultShader rt"
  "m_currentNonLegacyShader (unbind_the_shader states rt) = m_currentNonLegacyShader rt"
  "m_lastNonLegacyShader (unbind_the_shader states rt) = m_lastNonLegacyShader rt"
  "warnMissing (unbind_the_shader states rt) = warnMissing rt"
  by (auto simp add: unbind_the_shader_def)

lemma record_the_shader_simps [simp]:
  "calls (record_the_shader p states rt) = calls rt"
  "m_cache (record_the_shader p states rt) = m_cache rt"
  "m_view (record_the_shader p states rt) = m_view rt"
  "m_defaultView (record_the_shader p states rt) = m_defaultView rt"
  "m_defaultShader (record_the_shader p states rt) = m_defaultShader rt"
  "m_lastNonLegacyShader (record_the_shader p states rt) =
     (if m_defaultShader rt \<noteq> None then m_currentNonLegacyShader rt
      else m_lastNonLegacyShader rt)"
  "m_currentNonLegacyShader (record_the_shader p states rt) =
     (if m_defaultShader rt \<noteq> None then None else m_currentNonLegacyShader rt)"
  by (auto simp add: record_the_shader_def Let_def split: option.splits)

lemma steps_light [simp]: "steps (map (\<lambda>l. Light_addToShader l sh) ls) = []"
  by (induction ls) simp_all

lemma steps_light_parameters [simp]: "steps (light_parameters env rt) = []"
  by (simp add: light_parameters_def Let_def)

lemma steps_attribute [simp]:
  "steps (attribute location n type normalized p) = []"
  "steps (disable_attribute location) = []"
  by (simp_all add: attribute_def disable_attribute_def)

lemma steps_fixed_function_pointers [simp]: "steps (fixed_function_pointers data) = []"
  by (simp add: fixed_function_pointers_def)

lemma draw_with_shader_simps [simp]:
  "steps (calls (draw_with_shader env data mode n rt)) = steps (calls rt) @ [Primitives_drawn]"
  "m_cache (draw_with_shader env data mode n rt) = m_cache rt"
  "m_view (draw_with_shader env data mode n rt) = m_view rt"
  "m_defaultView (draw_with_shader env data mode n rt) = m_defaultView rt"
  "m_defaultShader (draw_with_shader env data mode n rt) = m_defaultShader rt"
  "m_currentNonLegacyShader (draw_with_shader env data mode n rt) = m_currentNonLegacyShader rt"
  "m_lastNonLegacyShader (draw_with_shader env data mode n rt) = m_lastNonLegacyShader rt"
  "warnMissing (draw_with_shader env data mode n rt) = warnMissing rt"
  by (simp_all add: draw_with_shader_def Let_def)

lemma draw_the_buffer_simps [simp]:
  "steps (calls (draw_the_buffer env buffer rt)) = steps (calls rt) @ [Primitives_drawn]"
  "m_cache (draw_the_buffer env buffer rt) = m_cache rt"
  "m_view (draw_the_buffer env buffer rt) = m_view rt"
  "m_defaultView (draw_the_buffer env buffer rt) = m_defaultView rt"
  "m_defaultShader (draw_the_buffer env buffer rt) = m_defaultShader rt"
  "m_currentNonLegacyShader (draw_the_buffer env buffer rt) = m_currentNonLegacyShader rt"
  "m_lastNonLegacyShader (draw_the_buffer env buffer rt) = m_lastNonLegacyShader rt"
  "warnMissing (draw_the_buffer env buffer rt) = warnMissing rt"
  by (simp_all add: draw_the_buffer_def Let_def)

lemma draw_the_buffer_legacy:
  "m_defaultShader rt = None \<Longrightarrow> calls (draw_the_buffer env buffer rt) = calls rt
     @ fixed_function_pointers (Null_plus 0)
     @ [glDrawArrays (modes (getPrimitiveType buffer)) 0 (getVertexCount buffer)]"
  by (simp add: draw_the_buffer_def)

lemma draw_the_array_simps [simp]:
  "steps (calls (draw_the_array env vertices n type rt)) = steps (calls rt) @ [Primitives_drawn]"
  "m_cache (draw_the_array env vertices n type rt) = m_cache rt"
  "m_view (draw_the_array env vertices n type rt) = m_view rt"
  "m_defaultView (draw_the_array env vertices n type rt) = m_defaultView rt"
  "m_defaultShader (draw_the_array env vertices n type rt) = m_defaultShader rt"
  "m_currentNonLegacyShader (draw_the_array env vertices n type rt) = m_currentNonLegacyShader rt"
  "m_lastNonLegacyShader (draw_the_array env vertices n type rt) = m_lastNonLegacyShader rt"
  "warnMissing (draw_the_array env vertices n type rt) = warnMissing rt"
  by (simp_all add: draw_the_array_def Let_def)

lemma draw_the_array_legacy:
  "m_defaultShader rt = None \<Longrightarrow> calls (draw_the_array env vertices n type rt) = calls rt
     @ (if vertices \<noteq> Null_plus 0 then fixed_function_pointers vertices else [])
     @ [glDrawArrays (modes type) 0 n]"
  by (simp add: draw_the_array_def)

lemma transform_the_vertices_simps [simp]:
  "steps (calls (transform_the_vertices env c vs n states rt)) = steps (calls rt)
     @ (if c then (if \<not> useVertexCache (m_cache rt) then [Transform_applied Identity] else [])
        else [Transform_applied (transform states)])"
  "m_cache (transform_the_vertices env c vs n states rt) =
     (if c then (m_cache rt)\<lparr>vertexCache :=
        pre_transform (transform states) vs n 0 (vertexCache (m_cache rt))\<rparr>
      else m_cache rt)"
  "m_view (transform_the_vertices env c vs n states rt) = m_view rt"
  "m_defaultView (transform_the_vertices env c vs n states rt) = m_defaultView rt"
  "m_defaultShader (transform_the_vertices env c vs n states rt) = m_defaultShader rt"
  "m_currentNonLegacyShader (transform_the_vertices env c vs n states rt) = m_currentNonLegacyShader rt"
  "m_lastNonLegacyShader (transform_the_vertices env c vs n states rt) = m_lastNonLegacyShader rt"
  "warnMissing (transform_the_vertices env c vs n states rt) = warnMissing rt"
  by (simp_all add: transform_the_vertices_def Let_def)


lemma resolved_shader_cong [simp]:
  "resolved_shader states (set_the_persistent_states env rt) = resolved_shader states rt"
  by (simp add: resolved_shader_def)

lemma draw_VertexBuffer_steps:
  assumes "getVertexCount buffer \<noteq> 0" and "activate env"
  shows "steps (calls (draw_VertexBuffer env buffer states rt)) =
     steps (calls (set_the_persistent_states env rt))
     @ [Transform_applied (transform states)]
     @ protocol_steps states (set_the_persistent_states env rt)
     @ (if buffer_cacheId buffer \<noteq> lastVertexBufferId (m_cache (set_the_persistent_states env rt))
        then [VertexBuffer_applied] else [])
     @ [Primitives_drawn]
     @ (if shader states \<noteq> None \<and> m_defaultShader rt = None then [Shader_applied None] else [])"
  using assms
  by (simp add: draw_VertexBuffer_def Let_def protocol_steps_def shaderChanged_at_def
      resolved_shader_def)

lemma draw_VertexBuffer_cache:
  assumes "getVertexCount buffer \<noteq> 0" and "activate env"
  shows "m_cache (draw_VertexBuffer env buffer states rt) =
     (m_cache (set_the_persistent_states env rt))\<lparr>viewChanged := False,
        lastBlendMode := blendMode states, lastTextureId := textureId states,
        lastVertexBufferId := buffer_cacheId buffer\<rparr>"
  using assms by (simp add: draw_VertexBuffer_def Let_def)

lemma length_pre_transform [simp]:
  "length (pre_transform tr vs n i cache) = length cache"
  by (induction tr vs n i cache rule: pre_transform.induct)
    (subst pre_transform.simps, simp)

lemma pre_transform_below:
  "k < i \<Longrightarrow> pre_transform tr vs n i cache ! k = cache ! k"
  by (induction tr vs n i cache rule: pre_transform.induct)
    (subst pre_transform.simps, simp)

lemma pre_transform_nth:
  "i \<le> k \<Longrightarrow> k < n \<Longrightarrow> n \<le> length cache \<Longrightarrow>
     pre_transform tr vs n i cache ! k =
       \<lparr>position = TransformPoint tr (position (vs ! k)), color = color (vs ! k),
        texCoords = texCoords (vs ! k), normal = normal (vs ! k)\<rparr>"
proof (induction tr vs n i cache rule: pre_transform.induct)
  case (1 tr vs n i cache)
  show ?case
  proof (cases "k = i")
    case True
    with 1 show ?thesis
      by (subst pre_transform.simps) (simp add: pre_transform_below)
  next
    case False
    with 1 show ?thesis
      by (subst pre_transform.simps) simp
  qed
qed

lemma resolved_shader_select [simp]:
  "resolved_shader states (select_shader states' rt) = resolved_shader states rt"
  by (simp add: resolved_shader_def)

lemma use_vertex_cache_cong [simp]:
  "use_vertex_cache env n states (select_shader states' rt) = use_vertex_cache env n states rt"
  "use_vertex_cache env n states (set_the_persistent_states env' rt) = use_vertex_cache env n states rt"
  by (simp_all add: use_vertex_cache_def)

lemma draw_Vertices_steps:
  assumes "n \<noteq> 0" and "activate env"
  shows "steps (calls (draw_Vertices env (Some vs) n type states rt)) =
     steps (calls (set_the_persistent_states env rt))
     @ (if use_vertex_cache env n states rt
        then (if \<not> useVertexCache (m_cache (set_the_persistent_states env rt))
              then [Transform_applied Identity] else [])
        else [Transform_applied (transform states)])
     @ protocol_steps states (set_the_persistent_states env rt)
     @ (if lastVertexBufferId (m_cache (set_the_persistent_states env rt)) \<noteq> 0
        then [VertexBuffer_applied] else [])
     @ [Primitives_drawn]
     @ (if shader states \<noteq> None \<and> m_defaultShader rt = None then [Shader_applied None] else [])"
  using assms
  by (simp add: draw_Vertices_def Let_def protocol_steps_def shaderChanged_at_def
      resolved_shader_def)

lemma draw_Vertices_cache:
  assumes "n \<noteq> 0" and "activate env"
  shows "m_cache (draw_Vertices env (Some vs) n type states rt) =
     (m_cache (set_the_persistent_states env rt))\<lparr>
        vertexCache := (if use_vertex_cache env n states rt
          then pre_transform (transform states) vs n 0
                 (vertexCache (m_cache (set_the_persistent_states env rt)))
          else vertexCache (m_cache (set_the_persistent_states env rt))),
        viewChanged := False,
        lastBlendMode := blendMode states, lastTextureId := textureId states,
        lastVertexBufferId := 0,
        useVertexCache := use_vertex_cache env n states rt\<rparr>"
  using assms by (simp add: draw_Vertices_def Let_def)

lemma draw_shaders:
  "m_defaultShader (draw env submission states rt) = m_defaultShader rt"
  "executed env submission \<Longrightarrow> m_lastNonLegacyShader (draw env submission states rt) =
     (if m_defaultShader rt \<noteq> None then resolved_shader states rt else m_lastNonLegacyShader rt)"
proof -
  show "m_defaultShader (draw env submission states rt) = m_defaultShader rt"
  proof (cases submission)
    case (Array vertices n type)
    then show ?thesis
      by (cases vertices) (simp_all add: draw_Vertices_def Let_def)
  next
    case (Buffer buffer)
    then show ?thesis by (simp add: draw_VertexBuffer_def Let_def)
  qed
  show "m_lastNonLegacyShader (draw env submission states rt) =
     (if m_defaultShader rt \<noteq> None then resolved_shader states rt else m_lastNonLegacyShader rt)"
    if "executed env submission"
  proof (cases submission)
    case (Array vertices n type)
    with that show ?thesis
      by (cases vertices) (simp_all add: executed_def draw_Vertices_def Let_def)
  next
    case (Buffer buffer)
    with that show ?thesis by (simp add: executed_def draw_VertexBuffer_def Let_def)
  qed
qed

lemma draw_steps:
  assumes "executed env submission"
  shows "steps (new_calls rt (draw env submission states rt)) =
     steps (new_calls rt (set_the_persistent_states env rt))
     @ transform_steps env submission states (set_the_persistent_states env rt)
     @ protocol_steps states (set_the_persistent_states env rt)
     @ (if vertexBufferId submission \<noteq> lastVertexBufferId (m_cache (set_the_persistent_states env rt))
        then [VertexBuffer_applied] else [])
     @ [Primitives_drawn]
     @ (if shader states \<noteq> None \<and> m_defaultShader rt = None then [Shader_applied None] else [])"
proof -
  let ?rt1 = "set_the_persistent_states env rt"
  have 1: "prefix (calls rt) (calls ?rt1)"
    by (intro extends) simp
  then have 2: "steps (calls ?rt1) = steps (calls rt) @ steps (new_calls rt ?rt1)"
    by (auto simp add: prefix_def new_calls_def)
  have 3: "prefix (calls rt) (calls (draw env submission states rt))"
    by (intro extends) simp
  show ?thesis
  proof (cases submission)
    case (Buffer buffer)
    with assms show ?thesis
      by (intro prefix_steps [OF 3])
        (simp add: executed_def draw_VertexBuffer_steps 2)
  next
    case (Array vertices n type)
    with assms obtain vs where vs: "vertices = Some vs" and n: "n \<noteq> 0" and act: "activate env"
      by (cases vertices) (auto simp add: executed_def)
    have eq: "(0 \<noteq> lastVertexBufferId (m_cache ?rt1)) = (lastVertexBufferId (m_cache ?rt1) \<noteq> 0)"
      by auto
    from Array vs n act show ?thesis
      by (intro prefix_steps [OF 3])
        (simp add: draw_Vertices_steps 2 eq)
  qed
qed

lemma draw_cache:
  assumes "executed env submission"
  shows "glStatesSet (m_cache (draw env submission states rt))"
    and "lastBlendMode (m_cache (draw env submission states rt)) = blendMode states"
    and "lastTextureId (m_cache (draw env submission states rt)) = textureId states"
    and "lastVertexBufferId (m_cache (draw env submission states rt)) = vertexBufferId submission"
    and "viewChanged (m_cache (draw env submission states rt)) = False"
proof -
  show "glStatesSet (m_cache (draw env submission states rt))"
    using assms
    by (cases submission rule: nothing_to_draw.cases)
      (simp_all add: executed_def draw_VertexBuffer_cache draw_Vertices_cache)
  show "lastBlendMode (m_cache (draw env submission states rt)) = blendMode states"
    using assms
    by (cases submission rule: nothing_to_draw.cases)
      (simp_all add: executed_def draw_VertexBuffer_cache draw_Vertices_cache)
  show "lastTextureId (m_cache (draw env submission states rt)) = textureId states"
    using assms
    by (cases submission rule: nothing_to_draw.cases)
      (simp_all add: executed_def draw_VertexBuffer_cache draw_Vertices_cache)
  show "lastVertexBufferId (m_cache (draw env submission states rt)) = vertexBufferId submission"
    using assms
    by (cases submission rule: nothing_to_draw.cases)
      (simp_all add: executed_def draw_VertexBuffer_cache draw_Vertices_cache)
  show "viewChanged (m_cache (draw env submission states rt)) = False"
    using assms
    by (cases submission rule: nothing_to_draw.cases)
      (simp_all add: executed_def draw_VertexBuffer_cache draw_Vertices_cache)
qed

lemma reset_steps:
  "activate env \<Longrightarrow> steps (new_calls rt (resetGLStates env rt)) =
     [BlendMode_applied, Transform_applied Identity, Texture_applied]
     @ (if Shader_isAvailable env then [Shader_applied (m_defaultShader rt)] else [])
     @ (if VertexBuffer_isAvailable env then [VertexBuffer_applied] else [])"
  by (rule prefix_steps) (simp_all add: extends)

lemma persistent_steps:
  "activate env \<Longrightarrow> steps (new_calls rt (set_the_persistent_states env rt)) =
     (if glStatesSet (m_cache rt) then []
      else [BlendMode_applied, Transform_applied Identity, Texture_applied]
        @ (if Shader_isAvailable env then [Shader_applied (m_defaultShader rt)] else [])
        @ (if VertexBuffer_isAvailable env then [VertexBuffer_applied] else []))"
  by (simp add: set_the_persistent_states_def reset_steps)

lemma persistent_cache:
  "activate env \<Longrightarrow> m_cache (set_the_persistent_states env rt) =
     (if glStatesSet (m_cache rt) then m_cache rt
      else (m_cache rt)\<lparr>glStatesSet := True,
        lastBlendMode := BlendAlpha, lastTextureId := 0,
        lastVertexBufferId := (if VertexBuffer_isAvailable env then 0
                               else lastVertexBufferId (m_cache rt)),
        useVertexCache := False, viewChanged := True\<rparr>)"
  by (simp add: set_the_persistent_states_def)

lemma setupNonLegacyPipeline_defaultShader:
  "m_defaultShader (setupNonLegacyPipeline env rt) =
    (if \<not> SFML_LEGACY_GL env \<and> Light_hasShaderLighting env
        \<and> double_1_29 < versionNumber env \<and> loadFromMemory env
     then Some (new_Shader env) else None)"
  by (simp add: setupNonLegacyPipeline_def Let_def double_1_29_def split: option.splits)

lemma setupNonLegacyPipeline_simps [simp]:
  "m_cache (setupNonLegacyPipeline env rt) = m_cache rt"
  "m_view (setupNonLegacyPipeline env rt) = m_view rt"
  "m_defaultView (setupNonLegacyPipeline env rt) = m_defaultView rt"
  "m_currentNonLegacyShader (setupNonLegacyPipeline env rt) = m_currentNonLegacyShader rt"
  "m_lastNonLegacyShader (setupNonLegacyPipeline env rt) = m_lastNonLegacyShader rt"
  "warnMissing (setupNonLegacyPipeline env rt) = warnMissing rt"
  by (simp_all add: setupNonLegacyPipeline_def Let_def split: option.splits)

lemma initialize_simps [simp]:
  "m_defaultShader (initialize env rt) =
    (if \<not> SFML_LEGACY_GL env \<and> Light_hasShaderLighting env
        \<and> double_1_29 < versionNumber env \<and> loadFromMemory env
     then Some (new_Shader env) else None)"
  "m_cache (initialize env rt) = (m_cache rt)\<lparr>glStatesSet := False\<rparr>"
  "m_view (initialize env rt) = Some (m_defaultView (initialize env rt))"
  "m_currentNonLegacyShader (initialize env rt) = m_currentNonLegacyShader rt"
  "m_lastNonLegacyShader (initialize env rt) = m_lastNonLegacyShader rt"
  "warnMissing (initialize env rt) = warnMissing rt"
  by (simp_all add: initialize_def Let_def setupNonLegacyPipeline_defaultShader)

lemma legacy_target_simps [simp]:
  "m_defaultShader legacy_target = None"
  "m_cache legacy_target = empty_cache"
  "calls legacy_target = []"
  by (simp_all add: legacy_target_def legacy_env_def new_target_def
      RenderTarget_constructor_def empty_cache_def initialize_def Let_def
      setupNonLegacyPipeline_def)

lemma executed_examples [simp]:
  "executed legacy_env (Array (Some triangle) 3 Triangles)"
  "executed legacy_env (Buffer triangle_buffer)"
  "executed shader_env (Array (Some triangle) 3 Triangles)"
  "executed shader_env (Buffer triangle_buffer)"
  "executed fixed_function_env (Array (Some triangle) 3 Triangles)"
  by (simp_all add: executed_def legacy_env_def shader_env_def fixed_function_env_def
      triangle_buffer_def)

lemma textureId_examples [simp]:
  "textureId plain_states = 0"
  "textureId (textured_states texture_1) = 1"
  "textureId (textured_states texture_2) = 2"
  by (simp_all add: textureId_def plain_states_def textured_states_def texture_1_def
      texture_2_def)

subsection \<open>Claims\<close>

text \<open>
  Claim C1. What decides whether the texture and the vertex buffer are applied again is
  the 64-bit cache identity of the submission (0 for none), compared with the identity
  in the cache; the address of the object is not read. In every executed draw, of
  either overload and from any state, a texture identity that differs from the cached
  one makes the texture applier run, and so does a buffer identity for the buffer
  applier. Once the persistent states are set, the texture applier runs exactly when the
  identity differs or the shader changed, the buffer applier exactly when the identity
  differs.
\<close>

theorem identity_decides:
  assumes "executed env submission"
  shows "(textureId states \<noteq> lastTextureId (m_cache rt) \<longrightarrow>
           Texture_applied \<in> set (steps (new_calls rt (draw env submission states rt))))
       \<and> (vertexBufferId submission \<noteq> lastVertexBufferId (m_cache rt) \<longrightarrow>
           VertexBuffer_applied \<in> set (steps (new_calls rt (draw env submission states rt))))
       \<and> (glStatesSet (m_cache rt) \<longrightarrow>
           (Texture_applied \<in> set (steps (new_calls rt (draw env submission states rt)))
             \<longleftrightarrow> shaderChanged_at states rt \<or> textureId states \<noteq> lastTextureId (m_cache rt))
         \<and> (VertexBuffer_applied \<in> set (steps (new_calls rt (draw env submission states rt)))
             \<longleftrightarrow> vertexBufferId submission \<noteq> lastVertexBufferId (m_cache rt)))"
proof -
  from assms have act: "activate env" by (simp add: executed_def)
  have ts: "Texture_applied \<notin> set (transform_steps env submission states r)"
    "VertexBuffer_applied \<notin> set (transform_steps env submission states r)" for r
    by (cases submission; simp)+
  show ?thesis
    unfolding draw_steps [OF assms] persistent_steps [OF act] persistent_cache [OF act]
    by (simp add: protocol_steps_def ts shaderChanged_at_def resolved_shader_def)
qed

theorem identity_decides_witness:
  "texture_address texture_2 = texture_address texture_1
   \<and> Texture_applied \<in> set (steps (new_calls
        (draw_triangle (textured_states texture_1) legacy_target)
        (draw_triangle (textured_states texture_2)
          (draw_triangle (textured_states texture_1) legacy_target))))
   \<and> VertexBuffer_applied \<in> set (steps (new_calls
        (draw_triangle (textured_states texture_1) legacy_target)
        (draw legacy_env (Buffer triangle_buffer) (textured_states texture_1)
          (draw_triangle (textured_states texture_1) legacy_target))))"
proof -
  let ?rt1 = "draw_triangle (textured_states texture_1) legacy_target"
  have cached: "lastTextureId (m_cache ?rt1) = 1" "lastVertexBufferId (m_cache ?rt1) = 0"
    unfolding draw_triangle_def by (simp_all add: draw_cache del: draw.simps)
  have "textureId (textured_states texture_2) \<noteq> lastTextureId (m_cache ?rt1)"
    by (simp add: cached)
  with identity_decides [of legacy_env "Array (Some triangle) 3 Triangles"
      "textured_states texture_2" ?rt1]
  have texture: "Texture_applied \<in> set (steps (new_calls ?rt1
      (draw_triangle (textured_states texture_2) ?rt1)))"
    unfolding draw_triangle_def by (simp del: draw.simps)
  have "vertexBufferId (Buffer triangle_buffer) \<noteq> lastVertexBufferId (m_cache ?rt1)"
    by (simp add: cached triangle_buffer_def)
  with identity_decides [of legacy_env "Buffer triangle_buffer"
      "textured_states texture_1" ?rt1]
  have buffer: "VertexBuffer_applied \<in> set (steps (new_calls ?rt1
      (draw legacy_env (Buffer triangle_buffer) (textured_states texture_1) ?rt1)))"
    by (simp del: draw.simps)
  from texture buffer show ?thesis
    by (simp add: texture_2_def del: draw.simps)
qed

lemma filter_transform_steps [simp]:
  "filter cached_applier (transform_steps env submission states rt) = []"
  by (cases submission) simp_all

lemma shaderChanged_at_after_draw:
  assumes "executed env submission"
    and "resolved_shader states rt = resolved_shader states' rt"
  shows "\<not> shaderChanged_at states' (draw env submission states rt)"
  using assms
  by (simp add: shaderChanged_at_def draw_shaders resolved_shader_def del: draw.simps)

text \<open>
  Claim C2. Take two consecutive executed draws, of either overload, with the same blend
  mode, the same vertex-buffer identity and the same resolved shader. If they have the
  same texture identity too, the second draw runs none of the blend-mode, texture and
  vertex-buffer appliers; if the texture identity differs, it runs the texture applier,
  once, and neither of the other two.
\<close>

theorem cache_suppression:
  assumes "executed env1 sub1" and "executed env2 sub2"
    and "blendMode states1 = blendMode states2"
    and "vertexBufferId sub1 = vertexBufferId sub2"
    and "resolved_shader states1 rt = resolved_shader states2 rt"
  shows "filter cached_applier (steps (new_calls (draw env1 sub1 states1 rt)
           (draw env2 sub2 states2 (draw env1 sub1 states1 rt)))) =
         (if textureId states1 = textureId states2 then [] else [Texture_applied])"
proof -
  let ?rt1 = "draw env1 sub1 states1 rt"
  have set: "set_the_persistent_states env2 ?rt1 = ?rt1"
    using draw_cache(1) [OF assms(1)] by (simp del: draw.simps)
  have same: "\<not> shaderChanged_at states2 ?rt1"
    using assms(1,5) by (rule shaderChanged_at_after_draw)
  show ?thesis
    unfolding draw_steps [OF assms(2)] set
    using assms(3,4) same
    by (auto simp add: protocol_steps_def draw_cache [OF assms(1)] simp del: draw.simps)
qed

theorem cache_suppression_witness:
  "filter cached_applier (steps (new_calls
      (draw_triangle (textured_states texture_1) legacy_target)
      (draw_triangle (textured_states texture_1)
        (draw_triangle (textured_states texture_1) legacy_target)))) = []
   \<and> filter cached_applier (steps (new_calls
      (draw shader_env (Buffer triangle_buffer) (textured_states texture_1) shader_target)
      (draw shader_env (Buffer triangle_buffer) (textured_states texture_2)
        (draw shader_env (Buffer triangle_buffer) (textured_states texture_1) shader_target))))
     = [Texture_applied]"
proof -
  have blend: "blendMode (textured_states texture_1) = blendMode (textured_states texture_2)"
    by (simp add: textured_states_def)
  have shaders: "resolved_shader (textured_states texture_1) rt =
      resolved_shader (textured_states texture_2) rt" for rt
    by (simp add: resolved_shader_def textured_states_def)
  show ?thesis
    using cache_suppression [of legacy_env "Array (Some triangle) 3 Triangles"
        legacy_env "Array (Some triangle) 3 Triangles"
        "textured_states texture_1" "textured_states texture_1" legacy_target]
      cache_suppression [of shader_env "Buffer triangle_buffer"
        shader_env "Buffer triangle_buffer"
        "textured_states texture_1" "textured_states texture_2" shader_target,
        OF _ _ blend _ shaders]
    by (simp add: draw_triangle_def del: draw.simps)
qed

text \<open>
  Claim C3. A call of the array overload with a null vertex pointer or a vertex count of
  zero, and a call of the buffer overload with a buffer of zero vertices, returns the
  target as it was: no call is made on the device or on a collaborator, and the cache
  (with every other member) is unchanged.
\<close>

theorem nothing_to_draw_changes_nothing:
  assumes "nothing_to_draw submission"
  shows "draw env submission states rt = rt
       \<and> new_calls rt (draw env submission states rt) = []
       \<and> m_cache (draw env submission states rt) = m_cache rt"
  using assms
  by (cases submission rule: nothing_to_draw.cases)
    (simp_all add: draw_Vertices_def draw_VertexBuffer_def)

theorem nothing_to_draw_changes_nothing_witness:
  "draw legacy_env (Array None 3 Triangles) plain_states legacy_target = legacy_target
   \<and> draw legacy_env (Array (Some triangle) 0 Triangles) plain_states legacy_target
       = legacy_target
   \<and> draw legacy_env (Buffer (triangle_buffer\<lparr>getVertexCount := 0\<rparr>)) plain_states
       legacy_target = legacy_target"
  using nothing_to_draw_changes_nothing [of "Array None 3 Triangles" legacy_env plain_states
      legacy_target]
    nothing_to_draw_changes_nothing [of "Array (Some triangle) 0 Triangles" legacy_env
      plain_states legacy_target]
    nothing_to_draw_changes_nothing [of "Buffer (triangle_buffer\<lparr>getVertexCount := 0\<rparr>)"
      legacy_env plain_states legacy_target]
  by (simp del: draw.simps)

lemma persistent_vertexCache [simp]:
  "vertexCache (m_cache (set_the_persistent_states env rt)) = vertexCache (m_cache rt)"
  by (simp add: set_the_persistent_states_def resetGLStates_def Let_def)

lemma transforms_protocol_steps [simp]: "transforms (protocol_steps states rt) = []"
  by (simp add: protocol_steps_def)

text \<open>
  What an executed draw of the array overload does with the vertices and the transform,
  from any state: it takes the pre-transform path exactly when there is no default
  shader, the vertex count is at most \<open>VertexCacheSize\<close> and the render states permit it;
  it then fills the vertex cache and applies no transform but the identity, which it
  skips when the cache says that the previous draw used the path, so that the identity
  is in effect at the draw call only if it was in effect before.
\<close>

lemma array_draw_pre_transform:
  assumes "vertexCount \<noteq> 0" and "activate env"
    and "length (vertexCache (m_cache rt)) = VertexCacheSize env"
  shows "let rt' = draw_Vertices env (Some vertices) vertexCount type states rt;
             applied = transforms (steps (new_calls rt rt'))
         in (useVertexCache (m_cache rt') \<longleftrightarrow>
               m_defaultShader rt = None \<and> vertexCount \<le> VertexCacheSize env
               \<and> states_useVertexCache states)
          \<and> (useVertexCache (m_cache rt') \<longrightarrow>
               (\<forall>i<vertexCount. vertexCache (m_cache rt') ! i =
                  \<lparr>position = TransformPoint (transform states) (position (vertices ! i)),
                   color = color (vertices ! i), texCoords = texCoords (vertices ! i),
                   normal = normal (vertices ! i)\<rparr>)
               \<and> set applied \<subseteq> {Identity}
               \<and> (\<not> useVertexCache (m_cache rt) \<longrightarrow> applied \<noteq> []))
          \<and> (useVertexCache (m_cache rt')
               \<and> (useVertexCache (m_cache rt) \<longrightarrow> transform_in_effect rt = Some Identity)
               \<longrightarrow> transform_in_effect rt' = Some Identity)
          \<and> (\<not> useVertexCache (m_cache rt') \<longrightarrow>
               vertexCache (m_cache rt') = vertexCache (m_cache rt)
               \<and> applied \<noteq> [] \<and> last applied = transform states
               \<and> transform_in_effect rt' = Some (transform states))"
proof -
  let ?sub = "Array (Some vertices) vertexCount type"
  have ex: "executed env ?sub"
    using assms by (simp add: executed_def)
  have steps: "transforms (steps (new_calls rt (draw_Vertices env (Some vertices) vertexCount type states rt))) =
      (if glStatesSet (m_cache rt) then [] else [Identity])
      @ (if use_vertex_cache env vertexCount states rt
         then (if \<not> useVertexCache (m_cache (set_the_persistent_states env rt)) then [Identity] else [])
         else [transform states])"
    using draw_steps [OF ex, of rt states] assms(2)
    by (simp add: persistent_steps)
  have used: "useVertexCache (m_cache (set_the_persistent_states env rt)) \<Longrightarrow> useVertexCache (m_cache rt)"
    using assms(2) by (simp add: persistent_cache split: if_splits)
  have "prefix (calls rt) (calls (draw_Vertices env (Some vertices) vertexCount type states rt))"
    by (intro extends) simp
  then have effect: "transform_in_effect (draw_Vertices env (Some vertices) vertexCount type states rt) =
      (let applied = transforms (steps (new_calls rt
             (draw_Vertices env (Some vertices) vertexCount type states rt)))
       in if applied = [] then transform_in_effect rt else Some (last applied))"
    by (auto simp add: prefix_def new_calls_def transform_in_effect_def Let_def)
  show ?thesis
    unfolding effect Let_def steps
    using assms used
    by (auto simp add: draw_Vertices_cache use_vertex_cache_def pre_transform_nth)
qed


lemma shader_target_simps [simp]:
  "m_defaultShader shader_target = Some 4096"
  "m_cache shader_target = empty_cache"
  "calls shader_target = [Shader_loadFromMemory 4096]"
  by (simp_all add: shader_target_def shader_env_def legacy_env_def new_target_def
      RenderTarget_constructor_def empty_cache_def initialize_def Let_def
      setupNonLegacyPipeline_def double_1_29_def)

lemma other_operations_defaultShader [simp]:
  "m_defaultShader (clear env c rt) = m_defaultShader rt"
  "m_defaultShader (enableDepthTest enable rt) = m_defaultShader rt"
  "m_defaultShader (pushGLStates env rt) = m_defaultShader rt"
  "m_defaultShader (popGLStates env rt) = m_defaultShader rt"
  by (simp_all add: clear_def enableDepthTest_def pushGLStates_def popGLStates_def Let_def)

lemma fold_defaultShader:
  assumes "\<And>x rt. x \<in> set xs \<Longrightarrow> m_defaultShader (f x rt) = m_defaultShader rt"
  shows "m_defaultShader (fold f xs rt) = m_defaultShader rt"
  using assms by (induction xs arbitrary: rt) simp_all

lemma perform_defaultShader:
  "m_defaultShader (perform env operation rt) = m_defaultShader rt"
proof (induction env operation rt rule: perform.induct)
  case (5 env drawable states rt)
  then show ?case
    by (simp add: fold_defaultShader)
qed (simp_all add: draw_shaders del: draw.simps)

lemma run_defaultShader:
  "m_defaultShader (run operations rt) = m_defaultShader rt"
  by (induction operations rt rule: run.induct) (simp_all add: perform_defaultShader)

text \<open>
  Claim C5, as amended. After \<open>initialize\<close> the target has a default shader exactly when
  the build does not define \<^verbatim>\<open>SFML_LEGACY_GL\<close>, shader lighting is supported, the
  version number extracted from the supported shading-language version is greater than
  the \<^verbatim>\<open>double\<close> 1.29 and the default program pair compiles; the shader is then the
  one just created, and otherwise the member is null. Every call of \<open>initialize\<close> decides
  anew. No other operation changes the member: not \<open>clear\<close>, \<open>enableDepthTest\<close>,
  \<open>setView\<close>, a draw of any overload, \<open>pushGLStates\<close>, \<open>popGLStates\<close> or
  \<open>resetGLStates\<close>, and so no sequence of them after \<open>initialize\<close>.
\<close>

theorem default_shader_decided_by_initialize:
  "(m_defaultShader (initialize env rt) \<noteq> None \<longleftrightarrow>
      \<not> SFML_LEGACY_GL env \<and> Light_hasShaderLighting env
      \<and> double_1_29 < versionNumber env \<and> loadFromMemory env)
   \<and> (m_defaultShader (initialize env rt) \<noteq> None \<longrightarrow>
      m_defaultShader (initialize env rt) = Some (new_Shader env))
   \<and> m_defaultShader (perform env' operation rt) = m_defaultShader rt
   \<and> m_defaultShader (run operations (initialize env rt)) =
       m_defaultShader (initialize env rt)"
  by (simp add: perform_defaultShader run_defaultShader)

theorem default_shader_decided_by_initialize_witness:
  "m_defaultShader (initialize shader_env new_target) = Some (new_Shader shader_env)
   \<and> m_defaultShader
       (run [(shader_env, Clear (color white_vertex)),
             (shader_env, EnableDepthTest True),
             (shader_env, PushGLStates),
             (legacy_env, Draw (Buffer triangle_buffer) plain_states),
             (shader_env, Draw_Drawable
                [Draw (Array (Some triangle) 3 Triangles) plain_states, ResetGLStates]
                plain_states),
             (shader_env, PopGLStates)]
         (initialize shader_env new_target)) = Some (new_Shader shader_env)"
  using default_shader_decided_by_initialize [of shader_env new_target shader_env
      "Clear (color white_vertex)"
      "[(shader_env, Clear (color white_vertex)),
        (shader_env, EnableDepthTest True),
        (shader_env, PushGLStates),
        (legacy_env, Draw (Buffer triangle_buffer) plain_states),
        (shader_env, Draw_Drawable
           [Draw (Array (Some triangle) 3 Triangles) plain_states, ResetGLStates]
           plain_states),
        (shader_env, PopGLStates)]"]
  by (simp add: shader_env_def legacy_env_def double_1_29_def
      del: run.simps perform.simps)

text \<open>
  The claim as stated fails twice. In a build that defines \<^verbatim>\<open>SFML_LEGACY_GL\<close>, shader
  lighting is supported, the version number 4.5 exceeds 1.29 and the programs compile,
  and the target has no default shader. And the decision is revisited when \<open>initialize\<close>
  runs again: a target that has its default shader loses it when it is initialized
  once more where shader lighting is not supported.
\<close>

theorem default_shader_missing_or_revisited:
  "Light_hasShaderLighting legacy_build_env
   \<and> double_1_29 < versionNumber legacy_build_env
   \<and> loadFromMemory legacy_build_env
   \<and> m_defaultShader (initialize legacy_build_env new_target) = None
   \<and> m_defaultShader (initialize shader_env new_target) = Some 4096
   \<and> m_defaultShader (initialize legacy_env (initialize shader_env new_target)) = None"
  by (simp add: legacy_build_env_def shader_env_def legacy_env_def double_1_29_def)

lemma double_1_29_nearest:
  "129 / 100 < double_1_29" "double_1_29 - 129 / 100 < 1 / 2 ^ 54"
  by (simp_all add: double_1_29_def)

lemma static_cast_float_800: "static_cast_float 800 = 800" by code_simp
lemma static_cast_float_600: "static_cast_float 600 = 600" by code_simp
lemma float_mul_0: "float_mul w 0 = 0" by (simp add: float_mul_def float_round_def)
lemma float_add_half_0: "float_add (1 / 2) 0 = 1 / 2" by code_simp
lemma float_mul_800_1: "float_mul 800 1 = 800" by code_simp
lemma float_mul_600_1: "float_mul 600 1 = 600" by code_simp
lemma static_cast_int_half: "static_cast_int (1 / 2) = Some 0" by code_simp
lemma static_cast_int_800: "static_cast_int 800 = Some 800" by code_simp
lemma static_cast_int_600: "static_cast_int 600 = Some 600" by code_simp

text \<open>
  Rounding is visible: ten times the \<^verbatim>\<open>float\<close> nearest to 0.7 is below 7 and rounds
  to 7, so the conversion gives 7 where exact arithmetic gives 6.
\<close>

lemma single_precision_rounds:
  "static_cast_int (float_mul (static_cast_float 10) (float_round (7 / 10))) = Some 7"
  "static_cast_int (10 * float_round (7 / 10)) = Some 6"
  by code_simp+

lemma getViewport_Some:
  "getViewport env view = Some rectangle \<longleftrightarrow>
     static_cast_int (float_add (1 / 2) (float_mul (static_cast_float (vec_x (getSize env)))
        (rect_left (viewport view)))) = Some (rect_left rectangle) \<and>
     static_cast_int (float_add (1 / 2) (float_mul (static_cast_float (vec_y (getSize env)))
        (rect_top (viewport view)))) = Some (rect_top rectangle) \<and>
     static_cast_int (float_mul (static_cast_float (vec_x (getSize env)))
        (rect_width (viewport view))) = Some (rect_width rectangle) \<and>
     static_cast_int (float_mul (static_cast_float (vec_y (getSize env)))
        (rect_height (viewport view))) = Some (rect_height rectangle)"
  by (cases rectangle) (auto simp add: getViewport_def Let_def split: option.splits)

lemma getViewport_800_600:
  assumes "getSize env = \<lparr>vec_x = 800, vec_y = 600\<rparr>"
    and "viewport view = \<lparr>rect_left = 0, rect_top = 0, rect_width = 1, rect_height = 1\<rparr>"
  shows "getViewport env view =
    Some \<lparr>rect_left = 0, rect_top = 0, rect_width = 800, rect_height = 600\<rparr>"
  using assms
  by (simp add: getViewport_def static_cast_float_800 static_cast_float_600 float_mul_0
      float_add_half_0 float_mul_800_1 float_mul_600_1 static_cast_int_half
      static_cast_int_800 static_cast_int_600)

lemma round_even_bounds:
  "of_int (round_even q) \<le> q + 1 / 2" "q - 1 / 2 \<le> of_int (round_even q)"
  unfolding round_even_def Let_def
  by (auto simp add: not_less) linarith+

lemma round_even_nonneg: "0 \<le> q \<Longrightarrow> 0 \<le> round_even q"
  unfolding round_even_def Let_def by auto

lemma pow2_pos [simp]: "0 < pow2 e"
  by (simp add: pow2_def)

lemma pow2_powi: "pow2 e = 2 powi e"
  by (simp add: pow2_def power_int_def field_simps)

lemma exponent_le:
  assumes "0 < a"
  shows "pow2 (exponent a) \<le> a"
proof (cases "1 \<le> a")
  case True
  then have pos: "0 < \<lfloor>a\<rfloor>" by linarith
  from bitlen_bounds [OF pos] have "2 ^ nat (bitlen \<lfloor>a\<rfloor> - 1) \<le> \<lfloor>a\<rfloor>" by simp
  then have "(2::rat) ^ nat (bitlen \<lfloor>a\<rfloor> - 1) \<le> of_int \<lfloor>a\<rfloor>"
    by (metis of_int_le_iff of_int_numeral of_int_power)
  also have "\<dots> \<le> a" by simp
  finally show ?thesis
    using True pos bitlen_nonneg [of "\<lfloor>a\<rfloor>"]
    by (auto simp add: exponent_def pow2_def bitlen_def)
next
  case False
  let ?k = "ceillog2 (nat \<lceil>1 / a\<rceil>)"
  have "1 / a \<le> of_int \<lceil>1 / a\<rceil>" by simp
  also have "\<dots> = of_nat (nat \<lceil>1 / a\<rceil>)"
    using assms by (simp add: less_imp_le)
  also have "\<dots> \<le> of_nat (2 ^ ?k)"
    using le_two_power_ceillog2 [of "nat \<lceil>1 / a\<rceil>"] by (simp only: of_nat_le_iff)
  finally have "1 / a \<le> 2 ^ ?k" by simp
  then have le: "1 / 2 ^ ?k \<le> a"
    using assms by (simp add: field_simps)
  with False have "?k \<noteq> 0"
    by (cases "?k = 0") auto
  with False le show ?thesis
    by (simp add: exponent_def pow2_def)
qed

lemma exponent_gt:
  assumes "0 < a"
  shows "a < pow2 (exponent a + 1)"
proof (cases "1 \<le> a")
  case True
  then have pos: "0 < \<lfloor>a\<rfloor>" by linarith
  from bitlen_bounds [OF pos] have "\<lfloor>a\<rfloor> < 2 ^ nat (bitlen \<lfloor>a\<rfloor>)" by simp
  then have "\<lfloor>a\<rfloor> + 1 \<le> 2 ^ nat (bitlen \<lfloor>a\<rfloor>)" by simp
  then have "(of_int (\<lfloor>a\<rfloor> + 1) :: rat) \<le> of_int (2 ^ nat (bitlen \<lfloor>a\<rfloor>))"
    by (simp only: of_int_le_iff)
  moreover have "a < of_int (\<lfloor>a\<rfloor> + 1)" by linarith
  ultimately have "a < 2 ^ nat (bitlen \<lfloor>a\<rfloor>)" by simp
  then show ?thesis
    using True bitlen_nonneg [of "\<lfloor>a\<rfloor>"] by (simp add: exponent_def pow2_def)
next
  case False
  define n where "n = nat \<lceil>1 / a\<rceil>"
  define k where "k = ceillog2 n"
  from False assms have "1 < 1 / a" by simp
  then have "1 < \<lceil>1 / a\<rceil>" by (simp only: less_ceiling_iff of_int_1)
  then have n: "1 < n" and int_n: "int n = \<lceil>1 / a\<rceil>"
    unfolding n_def by linarith+
  from n have "0 < n" by linarith
  then have "2 ^ k < 2 * n"
    unfolding k_def by (rule two_power_ceillog2_gt)
  moreover have k: "k \<noteq> 0"
  proof
    assume "k = 0"
    with le_two_power_ceillog2 [of n] have "n \<le> 1" by (simp add: k_def)
    with n show False by linarith
  qed
  ultimately have "2 ^ (k - 1) < n"
    by (cases k) simp_all
  then have "2 ^ (k - 1) \<le> n - 1" by linarith
  then have "(of_nat (2 ^ (k - 1)) :: rat) \<le> of_nat (n - 1)"
    by (simp only: of_nat_le_iff)
  also from n have "(of_nat (n - 1) :: rat) = of_int (int n - 1)"
    by (simp add: of_nat_diff)
  also have "\<dots> < 1 / a"
    unfolding int_n by linarith
  finally have "2 ^ (k - 1) < 1 / a" by simp
  then have "a < 1 / 2 ^ (k - 1)"
    using assms by (simp add: field_simps)
  moreover have "pow2 (exponent a + 1) = 1 / 2 ^ (k - 1)"
    using False k
    by (cases k) (simp_all add: exponent_def pow2_def k_def n_def)
  ultimately show ?thesis by simp
qed

lemma float_round_nonneg: "0 \<le> v \<Longrightarrow> 0 \<le> float_round v"
  by (simp add: float_round_def Let_def round_even_nonneg less_imp_le)

lemma float_round_upper:
  assumes "0 \<le> v"
  shows "float_round v \<le> v + v / 2 ^ 24 + 1 / 2 ^ 150"
proof (cases "v = 0")
  case True
  then show ?thesis by (simp add: float_round_def)
next
  case False
  with assms have pos: "0 < v" by simp
  let ?e = "max (exponent \<bar>v\<bar>) (- 126)"
  let ?u = "pow2 (?e - 23)"
  have "float_round v = of_int (round_even (v / ?u)) * ?u"
    using False by (simp add: float_round_def Let_def)
  also have "\<dots> \<le> (v / ?u + 1 / 2) * ?u"
    using round_even_bounds(1) [of "v / ?u"] by (simp add: mult_right_mono less_imp_le)
  also have "\<dots> = v + ?u / 2"
  proof -
    have "?u \<noteq> 0"
      by (rule less_imp_neq [OF pow2_pos, symmetric])
    then show ?thesis by (simp add: field_simps)
  qed
  also have "?u / 2 \<le> v / 2 ^ 24 + 1 / 2 ^ 150"
  proof (cases "- 126 \<le> exponent \<bar>v\<bar>")
    case True
    then have "?u = pow2 (exponent v) / 2 ^ 23"
      using pos by (simp add: pow2_powi power_int_diff max_def)
    also have "\<dots> \<le> v / 2 ^ 23"
      using exponent_le [OF pos] by (simp add: divide_right_mono)
    finally have "?u / 2 \<le> v / 2 ^ 24" by simp
    then show ?thesis by simp
  next
    case False
    then have "?u = 1 / 2 ^ 149"
      by (simp add: max_def pow2_def)
    with pos show ?thesis by simp
  qed
  finally show ?thesis by simp
qed

lemma float_round_le:
  assumes "0 \<le> v" and "v \<le> b"
  shows "float_round v \<le> b + b / 2 ^ 24 + 1 / 2 ^ 150"
proof -
  have "float_round v \<le> v + v / 2 ^ 24 + 1 / 2 ^ 150"
    using assms(1) by (rule float_round_upper)
  also have "\<dots> \<le> b + b / 2 ^ 24 + 1 / 2 ^ 150"
    using assms(2) by (simp add: add_mono divide_right_mono)
  finally show ?thesis .
qed

lemma static_cast_int_defined:
  "0 \<le> v \<Longrightarrow> v < 2 ^ 31 \<Longrightarrow> static_cast_int v = Some \<lfloor>v\<rfloor>"
  by (simp add: static_cast_int_def Let_def floor_less_iff)

lemma static_cast_float_bounds:
  assumes "unat n \<le> 2 ^ 30"
  shows "0 \<le> static_cast_float n" "static_cast_float n \<le> 2 ^ 30 + 65"
proof -
  have n: "(of_nat (unat n) :: rat) \<le> 2 ^ 30"
    using assms by (metis of_nat_le_iff of_nat_numeral of_nat_power)
  show "0 \<le> static_cast_float n"
    unfolding static_cast_float_def by (rule float_round_nonneg) (rule of_nat_0_le_iff)
  have "static_cast_float n \<le> 2 ^ 30 + 2 ^ 30 / 2 ^ 24 + 1 / 2 ^ 150"
    unfolding static_cast_float_def by (rule float_round_le [OF _ n]) (rule of_nat_0_le_iff)
  then show "static_cast_float n \<le> 2 ^ 30 + 65" by simp
qed

lemma extent_defined:
  assumes "0 \<le> w" "w \<le> 2 ^ 30 + 65" "0 \<le> f" "f \<le> 1"
  shows "static_cast_int (float_mul w f) \<noteq> None"
    and "static_cast_int (float_add (1 / 2) (float_mul w f)) \<noteq> None"
proof -
  have "w * f \<le> w"
    using assms by (simp add: mult_left_le)
  with assms have wf: "0 \<le> w * f" "w * f \<le> 2 ^ 30 + 65"
    by simp_all
  have p0: "0 \<le> float_mul w f"
    using wf(1) by (simp add: float_mul_def float_round_nonneg)
  have "float_mul w f \<le> (2 ^ 30 + 65) + (2 ^ 30 + 65) / 2 ^ 24 + 1 / 2 ^ 150"
    unfolding float_mul_def by (rule float_round_le [OF wf])
  then have p1: "float_mul w f \<le> 2 ^ 30 + 131" by simp
  from p0 p1 show "static_cast_int (float_mul w f) \<noteq> None"
    by (simp add: static_cast_int_defined)
  have s0: "0 \<le> float_add (1 / 2) (float_mul w f)"
    using p0 by (simp add: float_add_def float_round_nonneg)
  have "float_add (1 / 2) (float_mul w f) \<le>
      (2 ^ 30 + 132) + (2 ^ 30 + 132) / 2 ^ 24 + 1 / 2 ^ 150"
    unfolding float_add_def using p0 p1 by (intro float_round_le) simp_all
  then have "float_add (1 / 2) (float_mul w f) \<le> 2 ^ 30 + 198" by simp
  with s0 show "static_cast_int (float_add (1 / 2) (float_mul w f)) \<noteq> None"
    by (simp add: static_cast_int_defined)
qed

lemma getViewport_defined:
  assumes "unat (vec_x (getSize env)) \<le> 2 ^ 30" and "unat (vec_y (getSize env)) \<le> 2 ^ 30"
    and "0 \<le> rect_left (viewport view)" "rect_left (viewport view) \<le> 1"
    and "0 \<le> rect_top (viewport view)" "rect_top (viewport view) \<le> 1"
    and "0 \<le> rect_width (viewport view)" "rect_width (viewport view) \<le> 1"
    and "0 \<le> rect_height (viewport view)" "rect_height (viewport view) \<le> 1"
  shows "getViewport env view \<noteq> None"
  using extent_defined [OF static_cast_float_bounds [OF assms(1)] assms(3,4)]
    extent_defined [OF static_cast_float_bounds [OF assms(2)] assms(5,6)]
    extent_defined [OF static_cast_float_bounds [OF assms(1)] assms(7,8)]
    extent_defined [OF static_cast_float_bounds [OF assms(2)] assms(9,10)]
  by (auto simp add: getViewport_def Let_def split: option.splits)

text \<open>
  Claim C6. For every view and every size of the target, \<open>getViewport\<close> returns the
  rectangle of \<^verbatim>\<open>int(0.5f + width * viewport.left)\<close>, \<^verbatim>\<open>int(0.5f + height * viewport.top)\<close>,
  \<^verbatim>\<open>int(width * viewport.width)\<close> and \<^verbatim>\<open>int(height * viewport.height)\<close>, computed in single
  precision with \<open>width\<close> and \<open>height\<close> the size of the target converted to \<^verbatim>\<open>float\<close>,
  whenever the four conversions to \<^verbatim>\<open>int\<close> are defined (and it returns nothing else).
  They are defined for every viewport rectangle within the unit square on a target of
  at most \<open>2\<^sup>3\<^sup>0\<close> pixels each way. For the viewport (0, 0, 1, 1) on a target of 800 by
  600 it returns (0, 0, 800, 600).
\<close>

theorem getViewport_rectangle:
  "(getViewport env view = Some rectangle \<longleftrightarrow>
     static_cast_int (float_add (1 / 2) (float_mul (static_cast_float (vec_x (getSize env)))
        (rect_left (viewport view)))) = Some (rect_left rectangle) \<and>
     static_cast_int (float_add (1 / 2) (float_mul (static_cast_float (vec_y (getSize env)))
        (rect_top (viewport view)))) = Some (rect_top rectangle) \<and>
     static_cast_int (float_mul (static_cast_float (vec_x (getSize env)))
        (rect_width (viewport view))) = Some (rect_width rectangle) \<and>
     static_cast_int (float_mul (static_cast_float (vec_y (getSize env)))
        (rect_height (viewport view))) = Some (rect_height rectangle))
   \<and> (unat (vec_x (getSize env)) \<le> 2 ^ 30 \<and> unat (vec_y (getSize env)) \<le> 2 ^ 30
        \<and> 0 \<le> rect_left (viewport view) \<and> rect_left (viewport view) \<le> 1
        \<and> 0 \<le> rect_top (viewport view) \<and> rect_top (viewport view) \<le> 1
        \<and> 0 \<le> rect_width (viewport view) \<and> rect_width (viewport view) \<le> 1
        \<and> 0 \<le> rect_height (viewport view) \<and> rect_height (viewport view) \<le> 1
      \<longrightarrow> getViewport env view \<noteq> None)
   \<and> (getSize env = \<lparr>vec_x = 800, vec_y = 600\<rparr>
        \<and> viewport view = \<lparr>rect_left = 0, rect_top = 0, rect_width = 1, rect_height = 1\<rparr>
      \<longrightarrow> getViewport env view =
            Some \<lparr>rect_left = 0, rect_top = 0, rect_width = 800, rect_height = 600\<rparr>)"
  using getViewport_Some [of env view rectangle] getViewport_800_600 [of env view]
    getViewport_defined [of env view]
  by blast

theorem getViewport_rectangle_witness:
  "getViewport legacy_env unit_viewport =
     Some \<lparr>rect_left = 0, rect_top = 0, rect_width = 800, rect_height = 600\<rparr>"
  using getViewport_rectangle [of legacy_env unit_viewport]
  by (simp add: legacy_env_def unit_viewport_def)

lemma transform_steps_no_shader [simp]:
  "Shader_applied sh \<notin> set (transform_steps env submission states rt)"
  by (cases submission) simp_all

lemma step_of_Shader_applied:
  "step_of c = Some (Shader_applied sh) \<longleftrightarrow> c = Shader_bind sh"
  by (cases c rule: step_of.cases) auto

lemma no_shader_bind_iff:
  "filter shader_bind cs = [] \<longleftrightarrow> (\<forall>sh. Shader_applied sh \<notin> set (steps cs))"
proof (induction cs)
  case Nil
  show ?case by simp
next
  case (Cons c cs)
  show ?case
  proof (cases "\<exists>sh. c = Shader_bind sh")
    case True
    then show ?thesis by auto
  next
    case False
    then have "shader_bind c = False"
      by (cases c) simp_all
    moreover from False have "step_of c \<noteq> Some (Shader_applied sh)" for sh
      by (simp add: step_of_Shader_applied)
    ultimately show ?thesis
      using Cons by (auto split: option.splits)
  qed
qed

lemma filter_shader_bind_pointers [simp]:
  "filter shader_bind (fixed_function_pointers data) = []"
  by (simp add: fixed_function_pointers_def)

lemma legacy_draw_VertexBuffer_calls:
  assumes "getVertexCount buffer \<noteq> 0" and "activate env" and "m_defaultShader rt = None"
  shows "\<exists>before pointers.
    new_calls rt (draw_VertexBuffer env buffer states rt) =
      before
      @ (if shader states \<noteq> None then [Shader_bind (shader states)] else [])
      @ (if buffer_cacheId buffer \<noteq> lastVertexBufferId (m_cache (set_the_persistent_states env rt))
         then [VertexBuffer_bind (Some buffer)] else [])
      @ pointers
      @ [glDrawArrays (modes (getPrimitiveType buffer)) 0 (getVertexCount buffer)]
      @ (if shader states \<noteq> None then [Shader_bind None] else [])
    \<and> filter shader_bind pointers = []"
proof -
  let ?rt2 = "select_shader states (set_the_persistent_states env rt)"
  define rt6 where "rt6 = apply_the_texture (shader_changed ?rt2) states
      (apply_the_blend_mode env states
        (apply_the_view env (shader_changed ?rt2)
          (applyTransform env (transform states) ?rt2)))"
  have "prefix (calls rt) (calls rt6)"
    unfolding rt6_def by (intro extends) simp
  then obtain before where before: "calls rt6 = calls rt @ before"
    by (auto simp add: prefix_def)
  have "calls (draw_VertexBuffer env buffer states rt) =
      calls rt6
      @ (if shader states \<noteq> None then [Shader_bind (shader states)] else [])
      @ (if buffer_cacheId buffer \<noteq> lastVertexBufferId (m_cache (set_the_persistent_states env rt))
         then [VertexBuffer_bind (Some buffer)] else [])
      @ fixed_function_pointers (Null_plus 0)
      @ [glDrawArrays (modes (getPrimitiveType buffer)) 0 (getVertexCount buffer)]
      @ (if shader states \<noteq> None then [Shader_bind None] else [])"
    using assms
    by (simp add: rt6_def draw_VertexBuffer_def Let_def draw_the_buffer_legacy
        resolved_shader_def)
  then have "new_calls rt (draw_VertexBuffer env buffer states rt) =
      before
      @ (if shader states \<noteq> None then [Shader_bind (shader states)] else [])
      @ (if buffer_cacheId buffer \<noteq> lastVertexBufferId (m_cache (set_the_persistent_states env rt))
         then [VertexBuffer_bind (Some buffer)] else [])
      @ fixed_function_pointers (Null_plus 0)
      @ [glDrawArrays (modes (getPrimitiveType buffer)) 0 (getVertexCount buffer)]
      @ (if shader states \<noteq> None then [Shader_bind None] else [])"
    by (simp add: new_calls_def before)
  then show ?thesis
    using filter_shader_bind_pointers by blast
qed

lemma legacy_draw_Vertices_calls:
  assumes "n \<noteq> 0" and "activate env" and "m_defaultShader rt = None"
  shows "\<exists>before pointers.
    new_calls rt (draw_Vertices env (Some vs) n type states rt) =
      before
      @ (if shader states \<noteq> None then [Shader_bind (shader states)] else [])
      @ (if lastVertexBufferId (m_cache (set_the_persistent_states env rt)) \<noteq> 0
         then [VertexBuffer_bind None] else [])
      @ pointers
      @ [glDrawArrays (modes type) 0 n]
      @ (if shader states \<noteq> None then [Shader_bind None] else [])
    \<and> filter shader_bind pointers = []"
proof -
  let ?rt2 = "select_shader states (set_the_persistent_states env rt)"
  let ?c = "use_vertex_cache env n states ?rt2"
  define rt6 where "rt6 = apply_the_texture (shader_changed ?rt2) states
      (apply_the_blend_mode env states
        (apply_the_view env (shader_changed ?rt2)
          (transform_the_vertices env ?c vs n states ?rt2)))"
  define pointers where "pointers =
     (let data = vertices_to_use ?c vs
        (unbind_any_bound_vertex_buffer (apply_the_shader states rt6))
      in if data \<noteq> Null_plus 0 then fixed_function_pointers data else [])"
  have "prefix (calls rt) (calls rt6)"
    unfolding rt6_def by (intro extends) simp
  then obtain before where before: "calls rt6 = calls rt @ before"
    by (auto simp add: prefix_def)
  have "calls (draw_Vertices env (Some vs) n type states rt) =
      calls rt6
      @ (if shader states \<noteq> None then [Shader_bind (shader states)] else [])
      @ (if lastVertexBufferId (m_cache (set_the_persistent_states env rt)) \<noteq> 0
         then [VertexBuffer_bind None] else [])
      @ pointers
      @ [glDrawArrays (modes type) 0 n]
      @ (if shader states \<noteq> None then [Shader_bind None] else [])"
    using assms
    by (simp add: rt6_def pointers_def draw_Vertices_def Let_def draw_the_array_legacy
        resolved_shader_def)
  then have "new_calls rt (draw_Vertices env (Some vs) n type states rt) =
      before
      @ (if shader states \<noteq> None then [Shader_bind (shader states)] else [])
      @ (if lastVertexBufferId (m_cache (set_the_persistent_states env rt)) \<noteq> 0
         then [VertexBuffer_bind None] else [])
      @ pointers
      @ [glDrawArrays (modes type) 0 n]
      @ (if shader states \<noteq> None then [Shader_bind None] else [])"
    by (simp add: new_calls_def before)
  moreover have "filter shader_bind pointers = []"
    by (simp add: pointers_def Let_def)
  ultimately show ?thesis
    by blast
qed


lemma legacy_draw_calls:
  assumes "executed env submission" and "m_defaultShader rt = None"
  shows "\<exists>before between.
    new_calls rt (draw env submission states rt) =
      before
      @ (if shader states \<noteq> None then [Shader_bind (shader states)] else [])
      @ between
      @ [glDrawArrays (primitive_mode submission) 0 (vertex_count submission)]
      @ (if shader states \<noteq> None then [Shader_bind None] else [])
    \<and> filter shader_bind between = []"
proof (cases submission)
  case (Buffer buffer)
  with assms have "getVertexCount buffer \<noteq> 0" "activate env"
    by (simp_all add: executed_def)
  from legacy_draw_VertexBuffer_calls [OF this assms(2), of states]
  obtain before pointers where
    "new_calls rt (draw_VertexBuffer env buffer states rt) =
      before
      @ (if shader states \<noteq> None then [Shader_bind (shader states)] else [])
      @ ((if buffer_cacheId buffer \<noteq> lastVertexBufferId (m_cache (set_the_persistent_states env rt))
          then [VertexBuffer_bind (Some buffer)] else []) @ pointers)
      @ [glDrawArrays (modes (getPrimitiveType buffer)) 0 (getVertexCount buffer)]
      @ (if shader states \<noteq> None then [Shader_bind None] else [])"
    and "filter shader_bind pointers = []"
    by auto
  moreover from this(2) have "filter shader_bind
      ((if buffer_cacheId buffer \<noteq> lastVertexBufferId (m_cache (set_the_persistent_states env rt))
        then [VertexBuffer_bind (Some buffer)] else []) @ pointers) = []"
    by simp
  ultimately show ?thesis
    unfolding Buffer draw.simps primitive_mode.simps vertex_count.simps by blast
next
  case (Array vertices n type)
  with assms obtain vs where vs: "vertices = Some vs" and "n \<noteq> 0" "activate env"
    by (cases vertices) (auto simp add: executed_def)
  from legacy_draw_Vertices_calls [OF this(2,3) assms(2), of vs type states]
  obtain before pointers where
    "new_calls rt (draw_Vertices env (Some vs) n type states rt) =
      before
      @ (if shader states \<noteq> None then [Shader_bind (shader states)] else [])
      @ ((if lastVertexBufferId (m_cache (set_the_persistent_states env rt)) \<noteq> 0
          then [VertexBuffer_bind None] else []) @ pointers)
      @ [glDrawArrays (modes type) 0 n]
      @ (if shader states \<noteq> None then [Shader_bind None] else [])"
    and "filter shader_bind pointers = []"
    by auto
  moreover from this(2) have "filter shader_bind
      ((if lastVertexBufferId (m_cache (set_the_persistent_states env rt)) \<noteq> 0
        then [VertexBuffer_bind None] else []) @ pointers) = []"
    by simp
  ultimately show ?thesis
    unfolding Array vs draw.simps primitive_mode.simps vertex_count.simps by blast
qed

lemma fixed_function_target_simps [simp]:
  "m_defaultShader fixed_function_target = None"
  "m_cache fixed_function_target = empty_cache"
  "calls fixed_function_target = []"
  by (simp_all add: fixed_function_target_def fixed_function_env_def legacy_env_def
      new_target_def RenderTarget_constructor_def empty_cache_def initialize_def Let_def
      setupNonLegacyPipeline_def)

lemma shader_step_transform_steps [simp]:
  "filter shader_step (transform_steps env submission states rt) = []"
  by (cases submission) simp_all

text \<open>
  Claim C7, as amended. In every executed draw, of either overload, the resolved shader
  (the per-draw override if one is given, else the default shader if the shader pipeline
  is active) is applied before the primitives are drawn, whatever shader the previous
  draw used, and no other shader is applied between the two. When there is neither an
  override nor a default shader, the draw applies no shader, except that a draw which
  first has to set the persistent states applies the null shader, once, through
  \<open>resetGLStates\<close> if shaders are available.
\<close>

theorem shader_applied_before_drawing:
  assumes "executed env submission"
  shows "(resolved_shader states rt \<noteq> None \<longrightarrow>
           (\<exists>before between after.
              steps (new_calls rt (draw env submission states rt)) =
                before @ [Shader_applied (resolved_shader states rt)] @ between
                  @ [Primitives_drawn] @ after
              \<and> (\<forall>s\<in>set between. \<forall>sh. s \<noteq> Shader_applied sh)))
       \<and> (resolved_shader states rt = None \<longrightarrow>
           filter shader_step (steps (new_calls rt (draw env submission states rt))) =
             (if \<not> glStatesSet (m_cache rt) \<and> Shader_isAvailable env
              then [Shader_applied None] else []))"
proof (intro conjI impI)
  let ?rt1 = "set_the_persistent_states env rt"
  let ?between = "if vertexBufferId submission \<noteq> lastVertexBufferId (m_cache ?rt1)
      then [VertexBuffer_applied] else []"
  assume resolved: "resolved_shader states rt \<noteq> None"
  have "steps (new_calls rt (draw env submission states rt)) =
      (steps (new_calls rt ?rt1) @ transform_steps env submission states ?rt1
        @ (if shaderChanged_at states ?rt1 \<or> viewChanged (m_cache ?rt1) then [View_applied] else [])
        @ (if blendMode states \<noteq> lastBlendMode (m_cache ?rt1) then [BlendMode_applied] else [])
        @ (if shaderChanged_at states ?rt1 \<or> textureId states \<noteq> lastTextureId (m_cache ?rt1)
           then [Texture_applied] else []))
      @ [Shader_applied (resolved_shader states rt)] @ ?between @ [Primitives_drawn]
      @ (if shader states \<noteq> None \<and> m_defaultShader rt = None then [Shader_applied None] else [])"
    using resolved by (simp add: draw_steps [OF assms] protocol_steps_def del: draw.simps)
  moreover have "\<forall>s\<in>set ?between. \<forall>sh. s \<noteq> Shader_applied sh"
    by simp
  ultimately show "\<exists>before between after.
      steps (new_calls rt (draw env submission states rt)) =
        before @ [Shader_applied (resolved_shader states rt)] @ between
          @ [Primitives_drawn] @ after
      \<and> (\<forall>s\<in>set between. \<forall>sh. s \<noteq> Shader_applied sh)"
    by blast
next
  assume none: "resolved_shader states rt = None"
  from assms have act: "activate env" by (simp add: executed_def)
  from none have null: "shader states = None" "m_defaultShader rt = None"
    by (simp_all add: resolved_shader_def split: if_splits)
  show "filter shader_step (steps (new_calls rt (draw env submission states rt))) =
      (if \<not> glStatesSet (m_cache rt) \<and> Shader_isAvailable env
       then [Shader_applied None] else [])"
    using none null
    by (simp add: draw_steps [OF assms] persistent_steps [OF act] protocol_steps_def
        del: draw.simps)
qed

theorem shader_applied_before_drawing_witness:
  "(\<exists>before between after.
      steps (new_calls shader_target
        (draw shader_env (Buffer triangle_buffer) plain_states shader_target)) =
        before @ [Shader_applied (Some 4096)] @ between @ [Primitives_drawn] @ after
      \<and> (\<forall>s\<in>set between. \<forall>sh. s \<noteq> Shader_applied sh))
   \<and> (\<exists>before between after.
      steps (new_calls legacy_target (draw_triangle shaded_states legacy_target)) =
        before @ [Shader_applied (Some 12288)] @ between @ [Primitives_drawn] @ after
      \<and> (\<forall>s\<in>set between. \<forall>sh. s \<noteq> Shader_applied sh))
   \<and> filter shader_step
        (steps (new_calls legacy_target (draw_triangle plain_states legacy_target)))
      = [Shader_applied None]
   \<and> filter shader_step
        (steps (new_calls (draw_triangle plain_states legacy_target)
          (draw_triangle plain_states (draw_triangle plain_states legacy_target))))
      = []"
proof -
  let ?rt1 = "draw_triangle plain_states legacy_target"
  have none: "resolved_shader plain_states legacy_target = None"
    "resolved_shader plain_states ?rt1 = None"
    unfolding draw_triangle_def
    by (simp_all add: resolved_shader_def plain_states_def draw_shaders del: draw.simps)
  have set: "\<not> glStatesSet (m_cache legacy_target)" "glStatesSet (m_cache ?rt1)"
    unfolding draw_triangle_def
    by (simp_all add: empty_cache_def draw_cache del: draw.simps)
  have available: "Shader_isAvailable legacy_env"
    by (simp add: legacy_env_def)
  from shader_applied_before_drawing [OF executed_examples(1), of plain_states legacy_target]
    none(1) set(1) available
  have first: "filter shader_step
        (steps (new_calls legacy_target (draw_triangle plain_states legacy_target)))
      = [Shader_applied None]"
    unfolding draw_triangle_def by (simp del: draw.simps)
  from shader_applied_before_drawing [OF executed_examples(1), of plain_states ?rt1]
    none(2) set(2)
  have second: "filter shader_step
        (steps (new_calls ?rt1 (draw_triangle plain_states ?rt1))) = []"
    unfolding draw_triangle_def by (simp del: draw.simps)
  from shader_applied_before_drawing [OF executed_examples(4), of plain_states shader_target]
  have default: "\<exists>before between after.
      steps (new_calls shader_target
        (draw shader_env (Buffer triangle_buffer) plain_states shader_target)) =
        before @ [Shader_applied (Some 4096)] @ between @ [Primitives_drawn] @ after
      \<and> (\<forall>s\<in>set between. \<forall>sh. s \<noteq> Shader_applied sh)"
    by (simp add: resolved_shader_def plain_states_def del: draw.simps)
  from shader_applied_before_drawing [OF executed_examples(1), of shaded_states legacy_target]
  have override: "\<exists>before between after.
      steps (new_calls legacy_target (draw_triangle shaded_states legacy_target)) =
        before @ [Shader_applied (Some 12288)] @ between @ [Primitives_drawn] @ after
      \<and> (\<forall>s\<in>set between. \<forall>sh. s \<noteq> Shader_applied sh)"
    by (simp add: draw_triangle_def resolved_shader_def plain_states_def shaded_states_def
        del: draw.simps)
  from default override first second show ?thesis by blast
qed

text \<open>
  The claim as stated fails where there is no shader at all: on a device without shaders
  the first draw of a fresh target issues its draw call, and no call up to the end of the
  draw binds a shader.
\<close>

theorem fixed_function_draw_binds_no_shader:
  "glDrawArrays GL_TRIANGLES 0 3 \<in> set (calls
      (draw fixed_function_env (Array (Some triangle) 3 Triangles) plain_states
        fixed_function_target))
   \<and> filter shader_bind (calls
      (draw fixed_function_env (Array (Some triangle) 3 Triangles) plain_states
        fixed_function_target)) = []"
proof -
  let ?rt' = "draw fixed_function_env (Array (Some triangle) 3 Triangles) plain_states
      fixed_function_target"
  have all: "calls ?rt' = new_calls fixed_function_target ?rt'"
    by (simp add: new_calls_def del: draw.simps)
  have env: "activate fixed_function_env" "\<not> Shader_isAvailable fixed_function_env"
    by (simp_all add: fixed_function_env_def legacy_env_def)
  from legacy_draw_calls [of fixed_function_env "Array (Some triangle) 3 Triangles"
      fixed_function_target plain_states]
  have drawn: "glDrawArrays GL_TRIANGLES 0 3 \<in> set (calls ?rt')"
    unfolding all by (auto simp del: draw.simps)
  have "Shader_applied sh \<notin> set (steps (new_calls fixed_function_target ?rt'))" for sh
    by (simp add: draw_steps persistent_steps env protocol_steps_def resolved_shader_def
        plain_states_def del: draw.simps)
  then have "filter shader_bind (calls ?rt') = []"
    unfolding all no_shader_bind_iff by simp
  with drawn show ?thesis by simp
qed

lemma draw_VertexBuffer_useVertexCache:
  assumes "glStatesSet (m_cache rt)"
  shows "useVertexCache (m_cache (draw_VertexBuffer env buffer states rt)) =
    useVertexCache (m_cache rt)"
  using assms by (simp add: draw_VertexBuffer_def Let_def)

lemma transform_in_effect_draw:
  "transform_in_effect (draw env submission states rt) =
    (let applied = transforms (steps (new_calls rt (draw env submission states rt)))
     in if applied = [] then transform_in_effect rt else Some (last applied))"
proof -
  have "prefix (calls rt) (calls (draw env submission states rt))"
    by (intro extends) simp
  then show ?thesis
    by (auto simp add: prefix_def new_calls_def transform_in_effect_def Let_def
        simp del: draw.simps)
qed

lemma transforms_draw:
  assumes "executed env submission"
  shows "transforms (steps (new_calls rt (draw env submission states rt))) =
    (if glStatesSet (m_cache rt) then [] else [Identity])
    @ transforms (transform_steps env submission states (set_the_persistent_states env rt))"
  using assms
  by (simp add: draw_steps persistent_steps executed_def del: draw.simps)

text \<open>
  Claim C8 at its failing input. On the legacy target a triangle is drawn through the
  vertex cache, then a vertex buffer is drawn with another transform: the cache still
  says \<open>useVertexCache\<close> after the buffer draw. A third draw, of the triangle again,
  therefore skips the identity transform, and its pre-transformed vertices are drawn
  under the transform of the buffer draw.
\<close>

theorem buffer_draw_leaves_useVertexCache:
  "useVertexCache (m_cache (draw_triangle plain_states legacy_target))
   \<and> useVertexCache (m_cache
       (draw legacy_env (Buffer triangle_buffer) moved_states
         (draw_triangle plain_states legacy_target)))
   \<and> transform_in_effect
       (draw_triangle plain_states
         (draw legacy_env (Buffer triangle_buffer) moved_states
           (draw_triangle plain_states legacy_target)))
     = Some (transform moved_states)"
proof -
  let ?rt1 = "draw_triangle plain_states legacy_target"
  let ?rt2 = "draw legacy_env (Buffer triangle_buffer) moved_states ?rt1"
  let ?rt3 = "draw_triangle plain_states ?rt2"
  have env: "activate legacy_env" "VertexCacheSize legacy_env = 4"
    by (simp_all add: legacy_env_def)
  have cached: "use_vertex_cache legacy_env 3 plain_states rt \<longleftrightarrow> m_defaultShader rt = None"
    for rt
    by (simp add: use_vertex_cache_def env plain_states_def)
  have shaders: "m_defaultShader ?rt1 = None" "m_defaultShader ?rt2 = None"
    unfolding draw_triangle_def by (simp_all add: draw_shaders del: draw.simps)
  have set: "glStatesSet (m_cache ?rt1)" "glStatesSet (m_cache ?rt2)"
    unfolding draw_triangle_def by (simp_all add: draw_cache del: draw.simps)
  have 1: "useVertexCache (m_cache ?rt1)"
    unfolding draw_triangle_def by (simp add: draw_Vertices_cache env cached)
  have 2: "useVertexCache (m_cache ?rt2)"
    using 1 set(1) by (simp add: draw_VertexBuffer_useVertexCache)
  have "transform_in_effect ?rt2 = Some (transform moved_states)"
    unfolding transform_in_effect_draw [of legacy_env "Buffer triangle_buffer"]
    by (simp add: transforms_draw set del: draw.simps)
  moreover have "transforms (steps (new_calls ?rt2 ?rt3)) = []"
    unfolding draw_triangle_def [of plain_states ?rt2]
    using 2 set(2) shaders(2)
    by (simp add: transforms_draw cached del: draw.simps)
  ultimately have 3: "transform_in_effect ?rt3 = Some (transform moved_states)"
    unfolding draw_triangle_def [of plain_states ?rt2] transform_in_effect_draw [of legacy_env
        "Array (Some triangle) 3 Triangles" plain_states ?rt2]
    by (simp del: draw.simps)
  from 1 2 3 show ?thesis by simp
qed

lemma buffer_after_triangle_simps [simp]:
  "m_defaultShader buffer_after_triangle = None"
  "glStatesSet (m_cache buffer_after_triangle)"
  "useVertexCache (m_cache buffer_after_triangle)"
  "length (vertexCache (m_cache buffer_after_triangle)) = 4"
  "transform_in_effect buffer_after_triangle = Some (transform moved_states)"
proof -
  let ?rt1 = "draw_triangle plain_states legacy_target"
  have env: "activate legacy_env" "VertexCacheSize legacy_env = 4"
    by (simp_all add: legacy_env_def)
  have cached: "use_vertex_cache legacy_env 3 plain_states legacy_target"
    by (simp add: use_vertex_cache_def env plain_states_def)
  have set: "glStatesSet (m_cache ?rt1)"
    unfolding draw_triangle_def by (simp add: draw_cache del: draw.simps)
  have flag: "useVertexCache (m_cache ?rt1)"
    unfolding draw_triangle_def by (simp add: draw_Vertices_cache env cached)
  have len: "length (vertexCache (m_cache ?rt1)) = 4"
    unfolding draw_triangle_def
    by (simp add: draw_Vertices_cache env cached empty_cache_def)
  have buffer: "getVertexCount triangle_buffer \<noteq> 0"
    by (simp add: triangle_buffer_def)
  show "m_defaultShader buffer_after_triangle = None"
    unfolding buffer_after_triangle_def draw_triangle_def
    by (simp add: draw_shaders del: draw.simps)
  show "glStatesSet (m_cache buffer_after_triangle)"
    unfolding buffer_after_triangle_def by (simp add: draw_cache del: draw.simps)
  show "useVertexCache (m_cache buffer_after_triangle)"
    unfolding buffer_after_triangle_def using flag set
    by (simp add: draw_VertexBuffer_useVertexCache)
  show "length (vertexCache (m_cache buffer_after_triangle)) = 4"
    unfolding buffer_after_triangle_def using len set
    by (simp add: draw_VertexBuffer_cache buffer env)
  show "transform_in_effect buffer_after_triangle = Some (transform moved_states)"
    unfolding buffer_after_triangle_def
      transform_in_effect_draw [of legacy_env "Buffer triangle_buffer"]
    by (simp add: transforms_draw set del: draw.simps)
qed

text \<open>
  Claim C4 at its failing input. The array overload takes the pre-transform path exactly
  under the three conditions of the claim and fills the vertex cache as the claim says,
  but the identity is not always the transform used for the submission. On the legacy
  target the triangle is drawn through the vertex cache and then a vertex buffer is
  drawn with another transform; the buffer overload leaves \<open>useVertexCache\<close> set. The
  next draw of the triangle meets the three conditions, takes the path and fills the
  vertex cache with the transformed vertices, applies no transform at all, and the
  transform in effect at its draw call is that of the buffer draw, not the identity.
\<close>

theorem stale_useVertexCache_skips_identity:
  "m_defaultShader buffer_after_triangle = None
   \<and> 3 \<le> VertexCacheSize legacy_env
   \<and> states_useVertexCache plain_states
   \<and> useVertexCache (m_cache (draw_triangle plain_states buffer_after_triangle))
   \<and> position (vertexCache (m_cache (draw_triangle plain_states buffer_after_triangle)) ! 1)
     = TransformPoint (transform plain_states) (Vector3f 10 0 0)
   \<and> transforms (steps (new_calls buffer_after_triangle
        (draw_triangle plain_states buffer_after_triangle))) = []
   \<and> transform_in_effect (draw_triangle plain_states buffer_after_triangle)
     = Some (transform moved_states)
   \<and> transform moved_states \<noteq> Identity"
proof -
  let ?rt3 = "draw_triangle plain_states buffer_after_triangle"
  have env: "activate legacy_env" "VertexCacheSize legacy_env = 4"
    by (simp_all add: legacy_env_def)
  have permitted: "states_useVertexCache plain_states"
    by (simp add: plain_states_def)
  have cached: "use_vertex_cache legacy_env 3 plain_states buffer_after_triangle"
    by (simp add: use_vertex_cache_def env permitted)
  have taken: "useVertexCache (m_cache ?rt3)"
    unfolding draw_triangle_def by (simp add: draw_Vertices_cache env cached)
  have "vertexCache (m_cache ?rt3) ! 1 =
      \<lparr>position = TransformPoint (transform plain_states) (position (triangle ! 1)),
       color = color (triangle ! 1), texCoords = texCoords (triangle ! 1),
       normal = normal (triangle ! 1)\<rparr>"
    unfolding draw_triangle_def
    by (simp add: draw_Vertices_cache env cached pre_transform_nth)
  then have entry: "position (vertexCache (m_cache ?rt3) ! 1) =
      TransformPoint (transform plain_states) (Vector3f 10 0 0)"
    by (simp add: triangle_def)
  have none: "transforms (steps (new_calls buffer_after_triangle ?rt3)) = []"
    unfolding draw_triangle_def
    by (simp add: transforms_draw cached del: draw.simps)
  then have effect: "transform_in_effect ?rt3 = Some (transform moved_states)"
    unfolding draw_triangle_def transform_in_effect_draw [of legacy_env
        "Array (Some triangle) 3 Triangles" plain_states buffer_after_triangle]
    by (simp del: draw.simps)
  have other: "transform moved_states \<noteq> Identity"
    by (simp add: moved_states_def)
  from taken entry none effect other permitted show ?thesis
    by (simp add: env)
qed

text \<open>
  Claim C10. When there is no default shader and the caller gives a per-draw shader, an
  executed draw of either overload binds that shader, then, without binding any other
  shader, issues the draw call, and as the next and last call of the operation binds the
  null shader: no shader is bound when the draw returns.
\<close>

theorem legacy_override_bound_then_unbound:
  assumes "executed env submission" and "m_defaultShader rt = None"
    and "shader states = Some sh"
  shows "\<exists>before between.
    new_calls rt (draw env submission states rt) =
      before @ [Shader_bind (Some sh)] @ between
      @ [glDrawArrays (primitive_mode submission) 0 (vertex_count submission),
         Shader_bind None]
    \<and> filter shader_bind between = []"
  using legacy_draw_calls [OF assms(1,2), of states] assms(3)
  by (simp del: draw.simps)

theorem legacy_override_bound_then_unbound_witness:
  "(\<exists>before between.
      new_calls legacy_target (draw_triangle shaded_states legacy_target) =
        before @ [Shader_bind (Some 12288)] @ between
        @ [glDrawArrays GL_TRIANGLES 0 3, Shader_bind None]
      \<and> filter shader_bind between = [])
   \<and> (\<exists>before between.
      new_calls legacy_target
        (draw legacy_env (Buffer triangle_buffer) shaded_states legacy_target) =
        before @ [Shader_bind (Some 12288)] @ between
        @ [glDrawArrays GL_TRIANGLES 0 3, Shader_bind None]
      \<and> filter shader_bind between = [])"
proof -
  have sh: "shader shaded_states = Some 12288"
    by (simp add: shaded_states_def)
  have buffer: "modes (getPrimitiveType triangle_buffer) = GL_TRIANGLES"
    "getVertexCount triangle_buffer = 3"
    by (simp_all add: triangle_buffer_def)
  from legacy_override_bound_then_unbound
    [OF executed_examples(1) legacy_target_simps(1) sh]
  have array_draw: "\<exists>before between.
      new_calls legacy_target (draw_triangle shaded_states legacy_target) =
        before @ [Shader_bind (Some 12288)] @ between
        @ [glDrawArrays GL_TRIANGLES 0 3, Shader_bind None]
      \<and> filter shader_bind between = []"
    by (simp add: draw_triangle_def del: draw.simps)
  from legacy_override_bound_then_unbound
    [OF executed_examples(2) legacy_target_simps(1) sh]
  have buffer_draw: "\<exists>before between.
      new_calls legacy_target
        (draw legacy_env (Buffer triangle_buffer) shaded_states legacy_target) =
        before @ [Shader_bind (Some 12288)] @ between
        @ [glDrawArrays GL_TRIANGLES 0 3, Shader_bind None]
      \<and> filter shader_bind between = []"
    by (simp add: buffer del: draw.simps)
  from array_draw buffer_draw show ?thesis ..
qed

end
